theory Spec2Isabelle
  imports Main "HOL-Library.Word"
begin

section \<open>The pronunciation audio service (server.js and its second variant)\<close>

text \<open>
  The service keeps three module-level JavaScript \<open>Map\<close>s (the audio cache, the preload
  queue and the request metrics) and serves them through Express handlers. Each handler
  is embedded as a function from the state before the call to the state after it and the
  HTTP response. Everything a handler reads from outside (the clock, the random job id,
  the md5 digest, the URL encoder, the outcome of the upstream fetch) is a parameter.
\<close>

subsection \<open>JavaScript values\<close>

text \<open>
  A JavaScript string is a sequence of UTF-16 code units: \<open>text.length\<close> counts code
  units and a regular expression without the \<open>u\<close> flag matches code units.
\<close>

type_synonym jsstring = "16 word list"

definition js :: "string \<Rightarrow> jsstring" where
  "js s = map of_char s"

text \<open>
  The values \<open>express.json()\<close> can put into a field of \<open>req.body\<close>; \<open>JUndefined\<close> is
  a field that is absent. An object is the list of its own properties: \<open>JSON.parse\<close>
  creates every member, one named \<open>toString\<close> or \<open>__proto__\<close> included, as an own data
  property. Numbers are only ever tested for truthiness and type or turned into a string;
  the integers stand for them.
\<close>

datatype json =
    JUndefined
  | JNull
  | JBool bool
  | JNum int
  | JStr jsstring
  | JArr "json list"
  | JObj "(jsstring \<times> json) list"

fun truthy :: "json \<Rightarrow> bool" where
  "truthy JUndefined = False"
| "truthy JNull = False"
| "truthy (JBool b) = b"
| "truthy (JNum n) = (n \<noteq> 0)"
| "truthy (JStr s) = (s \<noteq> [])"
| "truthy (JArr xs) = True"
| "truthy (JObj ps) = True"

text \<open>
  Whether turning the value into a string, as a template literal does, throws a
  \<open>TypeError\<close>. An object is converted by its \<open>toString\<close> method: the inherited one
  returns \<open>[object Object]\<close>, but an own property \<open>toString\<close> shadows it, is no function
  (it came from JSON), and \<open>valueOf\<close> does not return a primitive either. An array joins
  the strings of its elements, so it throws when one of them does.
\<close>

fun toString_throws :: "json \<Rightarrow> bool" where
  "toString_throws (JObj ps) = (js ''toString'' \<in> set (map fst ps))"
| "toString_throws (JArr xs) = list_ex toString_throws xs"
| "toString_throws v = False"

fun typeof_string :: "json \<Rightarrow> bool" where
  "typeof_string (JStr s) = True"
| "typeof_string v = False"

fun isArray :: "json \<Rightarrow> bool" where
  "isArray (JArr xs) = True"
| "isArray v = False"

text \<open>
  The string carried by a string value and the elements of an array value. The handlers
  apply them only behind the \<open>typeof\<close> and \<open>Array.isArray\<close> checks.
\<close>

fun str_val :: "json \<Rightarrow> jsstring" where
  "str_val (JStr s) = s"
| "str_val v = []"

fun arr_val :: "json \<Rightarrow> json list" where
  "arr_val (JArr xs) = xs"
| "arr_val v = []"

subsection \<open>The JavaScript Map\<close>

text \<open>
  A \<open>Map\<close> iterates in insertion order, so it is a list of entries, oldest first.
  \<open>set\<close> on a key that is present replaces the value where the entry stands; on a new
  key it appends. \<open>delete\<close> removes the entry of the key.
\<close>

type_synonym ('k, 'v) jsmap = "('k \<times> 'v) list"

fun jsmap_get :: "('k, 'v) jsmap \<Rightarrow> 'k \<Rightarrow> 'v option" where
  "jsmap_get [] k = None"
| "jsmap_get (p # ps) k = (if fst p = k then Some (snd p) else jsmap_get ps k)"

definition jsmap_has :: "('k, 'v) jsmap \<Rightarrow> 'k \<Rightarrow> bool" where
  "jsmap_has m k = (jsmap_get m k \<noteq> None)"

fun jsmap_set :: "('k, 'v) jsmap \<Rightarrow> 'k \<Rightarrow> 'v \<Rightarrow> ('k, 'v) jsmap" where
  "jsmap_set [] k v = [(k, v)]"
| "jsmap_set (p # ps) k v = (if fst p = k then (k, v) # ps else p # jsmap_set ps k v)"

definition jsmap_delete :: "('k, 'v) jsmap \<Rightarrow> 'k \<Rightarrow> ('k, 'v) jsmap" where
  "jsmap_delete m k = filter (\<lambda>p. fst p \<noteq> k) m"

definition jsmap_size :: "('k, 'v) jsmap \<Rightarrow> nat" where
  "jsmap_size m = length m"


text \<open>A \<open>Map\<close> holds each key once.\<close>

definition jsmap_wf :: "('k, 'v) jsmap \<Rightarrow> bool" where
  "jsmap_wf m = distinct (map fst m)"

subsection \<open>Configuration and collaborators\<close>

record audio_config =
  TTS_BASE_URL :: jsstring
  MAX_CACHE_SIZE :: nat
  PRELOAD_TIMEOUT :: nat
  SUPPORTED_LANGUAGES :: "jsstring list"
  DEFAULT_LANGUAGE :: jsstring

definition AUDIO_CONFIG :: audio_config where
  "AUDIO_CONFIG =
     \<lparr> TTS_BASE_URL = js ''https://translate.google.com/translate_tts'',
       MAX_CACHE_SIZE = 1000,
       PRELOAD_TIMEOUT = 5000,
       SUPPORTED_LANGUAGES = [js ''zh-CN'', js ''zh-TW''],
       DEFAULT_LANGUAGE = js ''zh-CN'' \<rparr>"

text \<open>
  The library calls whose results the service only passes on. Either may throw: the
  message of the exception is the \<open>Inl\<close> value. \<open>md5_hex s\<close> is
  \<open>crypto.createHash('md5').update(s).digest('hex')\<close>, \<open>url_search_params ps\<close> is
  \<open>new URLSearchParams(ps).toString()\<close> and \<open>toISOString t\<close> is the ISO form of
  the time \<open>t\<close>.
\<close>

type_synonym exn = jsstring

record env =
  md5_hex :: "jsstring \<Rightarrow> exn + jsstring"
  url_search_params :: "(jsstring \<times> jsstring) list \<Rightarrow> exn + jsstring"
  toISOString :: "int \<Rightarrow> jsstring"

text \<open>
  \<open>Date.now()\<close> is read several times in one callback; \<open>clk n\<close> is the value of the
  \<open>n\<close>-th read (counted from 0) of the callback that is running, in milliseconds.
\<close>

type_synonym clock = "nat \<Rightarrow> int"

subsection \<open>Helpers of server.js\<close>

definition generateAudioUrl :: "env \<Rightarrow> audio_config \<Rightarrow> jsstring \<Rightarrow> jsstring \<Rightarrow> exn + jsstring" where
  "generateAudioUrl e cfg txt lang =
     (case url_search_params e
             [(js ''ie'', js ''UTF-8''), (js ''q'', txt), (js ''tl'', lang), (js ''client'', js ''tw-ob'')] of
        Inl err \<Rightarrow> Inl err
      | Inr params \<Rightarrow> Inr (TTS_BASE_URL cfg @ js ''?'' @ params))"

definition generateCacheKey :: "env \<Rightarrow> jsstring \<Rightarrow> jsstring \<Rightarrow> exn + jsstring" where
  "generateCacheKey e txt lang = md5_hex e (txt @ js ''-'' @ lang)"

text \<open>
  The object stored in the cache: \<open>{audioUrl, text, language, timestamp}\<close>. The fields
  carry the prefix \<open>cr_\<close> because the preload job has fields of the same names.
\<close>

record cache_record =
  cr_audioUrl :: jsstring
  cr_text :: jsstring
  cr_language :: jsstring
  cr_timestamp :: jsstring

type_synonym cache = "(jsstring, cache_record) jsmap"

text \<open>
  \<open>cleanCache\<close>: the loop deletes the keys of \<open>entries[0]\<close>, ..., \<open>entries[entriesToRemove - 1]\<close>
  of the snapshot \<open>entries\<close>. \<open>Math.floor(MAX_CACHE_SIZE * 0.2)\<close> is a floating-point
  product; for the sizes a \<open>Map\<close> can have (far below \<open>2^50\<close>) it is the integer
  quotient by 5. The loop runs only when the cache holds at least \<open>MAX_CACHE_SIZE\<close>
  entries, so every index it reads is in range (\<open>cleanCache_reads_in_range\<close> below).
\<close>

fun delete_keys :: "'k list \<Rightarrow> ('k, 'v) jsmap \<Rightarrow> ('k, 'v) jsmap" where
  "delete_keys [] m = m"
| "delete_keys (k # ks) m = delete_keys ks (jsmap_delete m k)"

definition entriesToRemove :: "audio_config \<Rightarrow> nat" where
  "entriesToRemove cfg = MAX_CACHE_SIZE cfg div 5"

definition cleanCache :: "audio_config \<Rightarrow> ('k, 'v) jsmap \<Rightarrow> ('k, 'v) jsmap" where
  "cleanCache cfg audioCache =
     (if jsmap_size audioCache \<ge> MAX_CACHE_SIZE cfg
      then (let entries = audioCache
            in delete_keys (map fst (take (entriesToRemove cfg) entries)) audioCache)
      else audioCache)"

text \<open>The insert path of both \<open>/audio\<close> and the preload pass: \<open>cleanCache(); audioCache.set(...)\<close>.\<close>

definition cache_put :: "audio_config \<Rightarrow> ('k, 'v) jsmap \<Rightarrow> 'k \<Rightarrow> 'v \<Rightarrow> ('k, 'v) jsmap" where
  "cache_put cfg audioCache k v = jsmap_set (cleanCache cfg audioCache) k v"

definition chineseRegex_class :: "16 word \<Rightarrow> bool" where
  "chineseRegex_class c = ((0x4e00 \<le> c \<and> c \<le> 0x9fff) \<or> (0x3400 \<le> c \<and> c \<le> 0x4dbf))"

definition chineseRegex_test :: "jsstring \<Rightarrow> bool" where
  "chineseRegex_test s = list_ex chineseRegex_class s"

definition isValidChineseText :: "json \<Rightarrow> bool" where
  "isValidChineseText txt =
     (if \<not> truthy txt \<or> \<not> typeof_string txt then False
      else chineseRegex_test (str_val txt) \<and> length (str_val txt) \<le> 100)"

type_synonym metrics = "(jsstring, int list) jsmap"

definition recordMetrics :: "metrics \<Rightarrow> jsstring \<Rightarrow> int \<Rightarrow> metrics" where
  "recordMetrics requestMetrics endpoint responseTime =
     (let m1 = (if \<not> jsmap_has requestMetrics endpoint
                then jsmap_set requestMetrics endpoint [] else requestMetrics);
          pushed = (case jsmap_get m1 endpoint of None \<Rightarrow> [] | Some ms \<Rightarrow> ms) @ [responseTime];
          shifted = (if length pushed > 100 then tl pushed else pushed)
      in jsmap_set m1 endpoint shifted)"

subsection \<open>Preload jobs, the state, requests and responses\<close>

datatype job_status = Processing | Completed | Failed

text \<open>One element of \<open>results\<close>: \<open>{text, audioUrl, cached}\<close>.\<close>

record preload_result =
  res_text :: jsstring
  res_audioUrl :: jsstring
  res_cached :: bool

text \<open>
  \<open>preloadData\<close>. The fields \<open>completedTime\<close>, \<open>processingDuration\<close> and \<open>error\<close> do
  not exist until they are assigned. \<open>texts\<close> and \<open>language\<close> have passed validation when
  the object is built, so they are strings.
\<close>

record preload_job =
  job_id :: jsstring
  texts :: "jsstring list"
  language :: jsstring
  status :: job_status
  results :: "preload_result list"
  startTime :: int
  timestamp :: jsstring
  completedTime :: "int option"
  processingDuration :: "int option"
  error :: "exn option"

type_synonym queue = "(jsstring, preload_job) jsmap"

record state =
  audioCache :: cache
  preloadQueue :: queue
  requestMetrics :: metrics

text \<open>The fields of \<open>req.body\<close> that the handlers destructure.\<close>

record req_body =
  body_text :: json
  body_texts :: json
  body_language :: json

text \<open>
  The JSON body of the status response, field by field as the handler builds it;
  \<open>responseTime\<close> is kept as the number of milliseconds.
\<close>

record status_body =
  sb_success :: bool
  sb_preloadId :: jsstring
  sb_status :: job_status
  sb_results :: "preload_result list"
  sb_textsCount :: nat
  sb_language :: jsstring
  sb_processingDuration :: "int option"
  sb_timestamp :: jsstring
  sb_responseTime :: int

datatype error_extra =
    NoExtra
  | Details jsstring
  | SupportedLanguages "jsstring list"
  | ResponseTime int
  | PreloadId jsstring
  | Timestamp jsstring

datatype body =
    ErrorBody jsstring error_extra
  | InvalidTextBody json
  | AudioBody jsstring jsstring jsstring bool int
  | PreloadAccepted jsstring nat jsstring int jsstring
  | StatusBody status_body
  | ClearedBody nat int

text \<open>
  \<open>ErrorBody msg extra\<close> is \<open>{error: msg, ...}\<close> with the one further field the handler
  adds; \<open>InvalidTextBody t\<close> is the body whose message quotes the rejected element \<open>t\<close>;
  \<open>AudioBody text language audioUrl cached responseTime\<close> and
  \<open>PreloadAccepted preloadId textsCount language responseTime statusUrl\<close> are the two
  success bodies; \<open>ClearedBody previousCacheSize responseTime\<close> is the body of
  \<open>POST /cache/clear\<close>. A response is the status code and the body.
\<close>

type_synonym response = "nat \<times> body"

subsection \<open>POST /audio\<close>

definition default_language :: "audio_config \<Rightarrow> json \<Rightarrow> json" where
  "default_language cfg v = (if v = JUndefined then JStr (DEFAULT_LANGUAGE cfg) else v)"

definition language_supported :: "audio_config \<Rightarrow> json \<Rightarrow> bool" where
  "language_supported cfg v = (v \<in> set (map JStr (SUPPORTED_LANGUAGES cfg)))"

definition invalid_text_response :: response where
  "invalid_text_response =
     (400, ErrorBody (js ''Invalid Chinese text provided'')
             (Details (js ''Text must contain Chinese characters and be less than 100 characters'')))"

definition unsupported_language_response :: "audio_config \<Rightarrow> response" where
  "unsupported_language_response cfg =
     (400, ErrorBody (js ''Unsupported language'') (SupportedLanguages (SUPPORTED_LANGUAGES cfg)))"

definition audio_error_response :: "int \<Rightarrow> response" where
  "audio_error_response responseTime =
     (500, ErrorBody (js ''Internal server error while generating audio'') (ResponseTime responseTime))"

text \<open>
  The handler of server.js. An exception of \<open>generateCacheKey\<close> or \<open>generateAudioUrl\<close>
  is caught by the handler's \<open>catch\<close>, which answers 500; both are called before the
  cache is touched.
\<close>

definition audio_post :: "env \<Rightarrow> audio_config \<Rightarrow> clock \<Rightarrow> state \<Rightarrow> req_body \<Rightarrow> state \<times> response" where
  "audio_post e cfg clk st b =
     (let startTime = clk 0;
          txt = body_text b;
          lang = default_language cfg (body_language b)
      in if \<not> isValidChineseText txt then (st, invalid_text_response)
         else if \<not> language_supported cfg lang then (st, unsupported_language_response cfg)
         else (case generateCacheKey e (str_val txt) (str_val lang) of
                 Inl err \<Rightarrow> (st, audio_error_response (clk 1 - startTime))
               | Inr cacheKey \<Rightarrow>
                   (case jsmap_get (audioCache st) cacheKey of
                      Some cachedData \<Rightarrow>
                        (let responseTime = clk 1 - startTime
                         in (st\<lparr>requestMetrics := recordMetrics (requestMetrics st) (js ''/audio'') responseTime\<rparr>,
                             (200, AudioBody (str_val txt) (str_val lang) (js ''/play/'' @ cacheKey) True responseTime)))
                    | None \<Rightarrow>
                        (case generateAudioUrl e cfg (str_val txt) (str_val lang) of
                           Inl err \<Rightarrow> (st, audio_error_response (clk 1 - startTime))
                         | Inr url \<Rightarrow>
                             (let cache' = cache_put cfg (audioCache st) cacheKey
                                             \<lparr> cr_audioUrl = url, cr_text = str_val txt,
                                               cr_language = str_val lang,
                                               cr_timestamp = toISOString e (clk 1) \<rparr>;
                                  responseTime = clk 2 - startTime
                              in (st\<lparr>audioCache := cache',
                                     requestMetrics := recordMetrics (requestMetrics st) (js ''/audio'') responseTime\<rparr>,
                                  (200, AudioBody (str_val txt) (str_val lang) (js ''/play/'' @ cacheKey) False responseTime)))))))"

text \<open>
  The handler of the other variant (\<open>unnamed/part_000\<close>): it answers with
  \<open>cachedData.audioUrl\<close> on a hit and with the generated URL on a miss.
\<close>

definition audio_post_direct :: "env \<Rightarrow> audio_config \<Rightarrow> clock \<Rightarrow> state \<Rightarrow> req_body \<Rightarrow> state \<times> response" where
  "audio_post_direct e cfg clk st b =
     (let startTime = clk 0;
          txt = body_text b;
          lang = default_language cfg (body_language b)
      in if \<not> isValidChineseText txt then (st, invalid_text_response)
         else if \<not> language_supported cfg lang then (st, unsupported_language_response cfg)
         else (case generateCacheKey e (str_val txt) (str_val lang) of
                 Inl err \<Rightarrow> (st, audio_error_response (clk 1 - startTime))
               | Inr cacheKey \<Rightarrow>
                   (case jsmap_get (audioCache st) cacheKey of
                      Some cachedData \<Rightarrow>
                        (let responseTime = clk 1 - startTime
                         in (st\<lparr>requestMetrics := recordMetrics (requestMetrics st) (js ''/audio'') responseTime\<rparr>,
                             (200, AudioBody (str_val txt) (str_val lang) (cr_audioUrl cachedData) True responseTime)))
                    | None \<Rightarrow>
                        (case generateAudioUrl e cfg (str_val txt) (str_val lang) of
                           Inl err \<Rightarrow> (st, audio_error_response (clk 1 - startTime))
                         | Inr url \<Rightarrow>
                             (let cache' = cache_put cfg (audioCache st) cacheKey
                                             \<lparr> cr_audioUrl = url, cr_text = str_val txt,
                                               cr_language = str_val lang,
                                               cr_timestamp = toISOString e (clk 1) \<rparr>;
                                  responseTime = clk 2 - startTime
                              in (st\<lparr>audioCache := cache',
                                     requestMetrics := recordMetrics (requestMetrics st) (js ''/audio'') responseTime\<rparr>,
                                  (200, AudioBody (str_val txt) (str_val lang) url False responseTime)))))))"

subsection \<open>GET /play/:cacheKey\<close>

text \<open>
  The handler sends one request with \<open>https.get\<close> and registers three callbacks on it:
  the response callback, the \<open>'error'\<close> listener and the timeout callback. What the
  upstream does with the request is the parameter \<open>upstream\<close>: for the URL fetched, the
  events the request meets, in order. \<open>UpResponse bytes\<close> is the arrival of the response
  with the bytes that then flow through the pipe, \<open>UpError msg\<close> a failure of the
  connection, \<open>UpTimeout\<close> the socket staying idle for the timeout set on the request.
\<close>

datatype upstream_event =
    UpResponse "8 word list"
  | UpError exn
  | UpTimeout

datatype play_reply =
    JsonReply nat body
  | StreamReply "(jsstring \<times> jsstring) list" "8 word list"

text \<open>
  The run of one handler call: what has been written to the client, whether the headers
  of the Express response are sent, the requests sent upstream, each with the timeout set
  on it, whether \<open>request.destroy()\<close> was called, and the exception, if any, that was
  thrown out of a callback. The callbacks run from the event loop, outside every \<open>try\<close>,
  and server.js installs no \<open>uncaughtException\<close> handler: such an exception ends the
  process.
\<close>

record play_run =
  replies :: "play_reply list"
  headersSent :: bool
  fetched :: "(jsstring \<times> nat) list"
  destroyed :: bool
  uncaught :: "exn option"

definition play_start :: play_run where
  "play_start = \<lparr> replies = [], headersSent = False, fetched = [], destroyed = False, uncaught = None \<rparr>"

definition ERR_HTTP_HEADERS_SENT :: exn where
  "ERR_HTTP_HEADERS_SENT = js ''Cannot set headers after they are sent to the client''"

text \<open>
  \<open>res.status(code).json(body)\<close> and \<open>res.setHeader\<close> throw once the response has been
  sent.
\<close>

definition res_json :: "nat \<Rightarrow> body \<Rightarrow> play_run \<Rightarrow> play_run" where
  "res_json code b r =
     (if headersSent r then r\<lparr>uncaught := Some ERR_HTTP_HEADERS_SENT\<rparr>
      else r\<lparr>replies := replies r @ [JsonReply code b], headersSent := True\<rparr>)"

text \<open>The three callbacks, as server.js writes them.\<close>

definition on_response :: "8 word list \<Rightarrow> play_run \<Rightarrow> play_run" where
  "on_response bytes r =
     (if headersSent r then r\<lparr>uncaught := Some ERR_HTTP_HEADERS_SENT\<rparr>
      else r\<lparr>replies := replies r @
                   [StreamReply [(js ''Content-Type'', js ''audio/mpeg''),
                                 (js ''Cache-Control'', js ''public, max-age=3600''),
                                 (js ''Access-Control-Allow-Origin'', js ''*'')] bytes],
             headersSent := True\<rparr>)"

definition on_error :: "exn \<Rightarrow> play_run \<Rightarrow> play_run" where
  "on_error msg r = res_json 500 (ErrorBody (js ''Failed to retrieve audio'') (Details msg)) r"

definition on_timeout :: "play_run \<Rightarrow> play_run" where
  "on_timeout r = res_json 504 (ErrorBody (js ''Audio request timed out'') NoExtra) (r\<lparr>destroyed := True\<rparr>)"

text \<open>
  How Node's HTTP client drives the callbacks. A response that arrives runs the response
  callback, and the request lives on while the body flows. A failure of the connection
  makes the request emit \<open>'error'\<close> and closes it. A timeout runs the timeout callback;
  the \<open>request.destroy()\<close> in it closes the socket, and a request destroyed before a
  response has arrived emits \<open>'error'\<close> with the message \<open>socket hang up\<close>, so the
  \<open>'error'\<close> listener runs after the timeout callback. Nothing more is delivered after
  an uncaught exception or to a closed request.
\<close>

fun deliver :: "upstream_event list \<Rightarrow> play_run \<Rightarrow> play_run" where
  "deliver [] r = r"
| "deliver (UpResponse bytes # evs) r =
     (let r1 = on_response bytes r
      in if uncaught r1 \<noteq> None then r1 else deliver evs r1)"
| "deliver (UpError msg # evs) r = on_error msg r"
| "deliver (UpTimeout # evs) r =
     (let r1 = on_timeout r
      in if uncaught r1 \<noteq> None then r1 else on_error (js ''socket hang up'') r1)"

text \<open>
  The handler. The first component of the result is the state of the process after the
  call: \<open>None\<close> when an uncaught exception has ended the process, and the three Maps
  with it.
\<close>

definition play_get :: "(jsstring \<Rightarrow> upstream_event list) \<Rightarrow> state \<Rightarrow> jsstring \<Rightarrow> state option \<times> play_run" where
  "play_get upstream st cacheKey =
     (case jsmap_get (audioCache st) cacheKey of
        None \<Rightarrow>
          (Some st,
           res_json 404 (ErrorBody (js ''Audio not found'')
                           (Details (js ''The requested audio has not been cached or has expired'')))
             play_start)
      | Some cachedData \<Rightarrow>
          (let url = cr_audioUrl cachedData;
               r = deliver (upstream url) (play_start\<lparr>fetched := [(url, 10000)]\<rparr>)
           in (if uncaught r = None then Some st else None, r)))"

subsection \<open>POST /preload and the resolution pass\<close>

definition preload_error_response :: "int \<Rightarrow> response" where
  "preload_error_response responseTime =
     (500, ErrorBody (js ''Internal server error while initiating preload'') (ResponseTime responseTime))"

text \<open>
  The message of the 400 for an invalid element quotes the element in a template literal.
  When that conversion throws, the exception is caught by the handler's \<open>catch\<close>, which
  answers 500.
\<close>

text \<open>
  The handler validates, builds \<open>preloadData\<close>, registers it under the id that
  \<open>crypto.randomUUID()\<close> returned (the parameter \<open>preloadId\<close>) and hands the resolution
  pass to \<open>setImmediate\<close>. The third component of the result is the job the scheduled
  callback closes over, \<open>None\<close> when nothing was scheduled.
\<close>

definition preload_post ::
  "audio_config \<Rightarrow> env \<Rightarrow> clock \<Rightarrow> jsstring \<Rightarrow> state \<Rightarrow> req_body \<Rightarrow> state \<times> response \<times> preload_job option" where
  "preload_post cfg e clk preloadId st b =
     (let startTime = clk 0;
          txts = body_texts b;
          lang = default_language cfg (body_language b)
      in if \<not> isArray txts \<or> length (arr_val txts) = 0
         then (st, (400, ErrorBody (js ''Invalid input: texts must be a non-empty array'') NoExtra), None)
         else if length (arr_val txts) > 10
         then (st, (400, ErrorBody (js ''Too many texts to preload (maximum 10)'') NoExtra), None)
         else (case find (\<lambda>t. \<not> isValidChineseText t) (arr_val txts) of
                 Some t \<Rightarrow>
                   if toString_throws t
                   then (st, preload_error_response (clk 1 - startTime), None)
                   else (st, (400, InvalidTextBody t), None)
               | None \<Rightarrow>
                   if \<not> language_supported cfg lang
                   then (st, unsupported_language_response cfg, None)
                   else (let preloadData =
                               \<lparr> job_id = preloadId,
                                 texts = map str_val (arr_val txts),
                                 language = str_val lang,
                                 status = Processing,
                                 results = [],
                                 startTime = clk 1,
                                 timestamp = toISOString e (clk 2),
                                 completedTime = None,
                                 processingDuration = None,
                                 error = None \<rparr>;
                             responseTime = clk 3 - startTime
                         in (st\<lparr>preloadQueue := jsmap_set (preloadQueue st) preloadId preloadData,
                                requestMetrics := recordMetrics (requestMetrics st) (js ''/preload'') responseTime\<rparr>,
                             (200, PreloadAccepted preloadId (length (arr_val txts)) (str_val lang)
                                     responseTime (js ''/preload/'' @ preloadId)),
                             Some preloadData))))"

text \<open>
  The \<open>for\<close> loop of the scheduled callback, over the texts still to resolve. It carries
  the cache, the number \<open>n\<close> of clock reads the callback has made and the \<open>results\<close> array.
  An exception leaves the loop at once: the cache keeps what earlier iterations stored,
  the local \<open>results\<close> array is lost.
\<close>

fun resolution_loop ::
  "env \<Rightarrow> audio_config \<Rightarrow> clock \<Rightarrow> jsstring \<Rightarrow> jsstring list \<Rightarrow> cache \<Rightarrow> nat \<Rightarrow> preload_result list
     \<Rightarrow> cache \<times> nat \<times> (exn + preload_result list)" where
  "resolution_loop e cfg clk lang [] c n rs = (c, n, Inr rs)"
| "resolution_loop e cfg clk lang (t # ts) c n rs =
     (case generateCacheKey e t lang of
        Inl err \<Rightarrow> (c, n, Inl err)
      | Inr cacheKey \<Rightarrow>
          if jsmap_has c cacheKey
          then resolution_loop e cfg clk lang ts c n
                 (rs @ [\<lparr> res_text = t, res_audioUrl = js ''/play/'' @ cacheKey, res_cached = True \<rparr>])
          else (case generateAudioUrl e cfg t lang of
                  Inl err \<Rightarrow> (c, n, Inl err)
                | Inr externalUrl \<Rightarrow>
                    resolution_loop e cfg clk lang ts
                      (cache_put cfg c cacheKey
                         \<lparr> cr_audioUrl = externalUrl, cr_text = t, cr_language = lang,
                           cr_timestamp = toISOString e (clk n) \<rparr>)
                      (Suc n)
                      (rs @ [\<lparr> res_text = t, res_audioUrl = js ''/play/'' @ cacheKey, res_cached = False \<rparr>])))"

text \<open>
  The queue holds the very object the callback mutates, so the mutation shows in the
  queue for as long as the job is registered; job ids are never reused.
\<close>

definition publish :: "queue \<Rightarrow> preload_job \<Rightarrow> queue" where
  "publish q pd = (if jsmap_has q (job_id pd) then jsmap_set q (job_id pd) pd else q)"

text \<open>
  The callback given to \<open>setImmediate\<close>, run in the state \<open>st\<close> on the job \<open>preloadData\<close>
  it closes over. It returns the state and the job object after the run.
\<close>

definition resolution_pass :: "env \<Rightarrow> audio_config \<Rightarrow> clock \<Rightarrow> state \<Rightarrow> preload_job \<Rightarrow> state \<times> preload_job" where
  "resolution_pass e cfg clk st preloadData =
     (case resolution_loop e cfg clk (language preloadData) (texts preloadData) (audioCache st) 0 [] of
        (c, n, Inr rs) \<Rightarrow>
          (let completed = clk n;
               pd = preloadData\<lparr> status := Completed, results := rs,
                                  completedTime := Some completed,
                                  processingDuration := Some (completed - startTime preloadData) \<rparr>
           in (st\<lparr>audioCache := c, preloadQueue := publish (preloadQueue st) pd\<rparr>, pd))
      | (c, n, Inl err) \<Rightarrow>
          (let pd = preloadData\<lparr> status := Failed, error := Some err \<rparr>
           in (st\<lparr>audioCache := c, preloadQueue := publish (preloadQueue st) pd\<rparr>, pd)))"

subsection \<open>The JSON body parser and the error middleware\<close>

text \<open>
  \<open>app.use(express.json())\<close> reads the body before any handler runs and refuses a body
  longer than its limit, which server.js leaves at the default of 100kb, 102400 bytes.
  The error goes to the error-handling middleware at the end of server.js, which answers
  500 whatever the error was. A request is the length of its body in bytes as sent and
  the body as parsed; the bodies modelled are those that parse as a JSON object.
\<close>

definition JSON_BODY_LIMIT :: nat where
  "JSON_BODY_LIMIT = 102400"

record request =
  content_length :: nat
  parsed :: req_body

definition error_middleware_response :: "env \<Rightarrow> clock \<Rightarrow> response" where
  "error_middleware_response e clk =
     (500, ErrorBody (js ''Internal server error'') (Timestamp (toISOString e (clk 0))))"

definition http_post_audio :: "env \<Rightarrow> audio_config \<Rightarrow> clock \<Rightarrow> state \<Rightarrow> request \<Rightarrow> state \<times> response" where
  "http_post_audio e cfg clk st r =
     (if content_length r > JSON_BODY_LIMIT then (st, error_middleware_response e clk)
      else audio_post e cfg clk st (parsed r))"

definition http_post_preload ::
  "audio_config \<Rightarrow> env \<Rightarrow> clock \<Rightarrow> jsstring \<Rightarrow> state \<Rightarrow> request \<Rightarrow> state \<times> response \<times> preload_job option" where
  "http_post_preload cfg e clk preloadId st r =
     (if content_length r > JSON_BODY_LIMIT then (st, error_middleware_response e clk, None)
      else preload_post cfg e clk preloadId st (parsed r))"

subsection \<open>GET /preload/:preloadId and the periodic sweep\<close>

definition status_response :: "jsstring \<Rightarrow> preload_job \<Rightarrow> int \<Rightarrow> response" where
  "status_response preloadId preloadData responseTime =
     (200, StatusBody
             \<lparr> sb_success = True,
               sb_preloadId = preloadId,
               sb_status = status preloadData,
               sb_results = results preloadData,
               sb_textsCount = length (texts preloadData),
               sb_language = language preloadData,
               sb_processingDuration = processingDuration preloadData,
               sb_timestamp = timestamp preloadData,
               sb_responseTime = responseTime \<rparr>)"

text \<open>
  The handler's local \<open>startTime\<close> is \<open>requestStart\<close> here, apart from the job's field
  \<open>startTime\<close>.
\<close>

definition preload_get :: "clock \<Rightarrow> state \<Rightarrow> jsstring \<Rightarrow> state \<times> response" where
  "preload_get clk st preloadId =
     (let requestStart = clk 0
      in case jsmap_get (preloadQueue st) preloadId of
           None \<Rightarrow> (st, (404, ErrorBody (js ''Preload request not found'') (PreloadId preloadId)))
         | Some preloadData \<Rightarrow>
             (let responseTime = clk 1 - requestStart;
                  q = (if status preloadData = Completed \<or> status preloadData = Failed
                       then (let age = clk 2 - startTime preloadData
                             in if age > 300000 then jsmap_delete (preloadQueue st) preloadId
                                else preloadQueue st)
                       else preloadQueue st)
              in (st\<lparr>preloadQueue := q\<rparr>, status_response preloadId preloadData responseTime)))"

text \<open>
  The \<open>setInterval\<close> callback. The \<open>for ... of\<close> loop walks the entries of the queue and
  deletes only the entry it stands on, so it visits every entry the queue had when the
  loop began.
\<close>

fun sweep_loop :: "int \<Rightarrow> int \<Rightarrow> (jsstring \<times> preload_job) list \<Rightarrow> queue \<Rightarrow> queue" where
  "sweep_loop now cutoff [] q = q"
| "sweep_loop now cutoff ((i, d) # rest) q =
     sweep_loop now cutoff rest (if now - startTime d > cutoff then jsmap_delete q i else q)"

definition sweep :: "clock \<Rightarrow> state \<Rightarrow> state" where
  "sweep clk st =
     (let now = clk 0; cutoff = 300000
      in st\<lparr>preloadQueue := sweep_loop now cutoff (preloadQueue st) (preloadQueue st)\<rparr>)"

subsection \<open>POST /cache/clear\<close>

definition cache_clear :: "clock \<Rightarrow> state \<Rightarrow> state \<times> response" where
  "cache_clear clk st =
     (let startTime = clk 0;
          previousSize = jsmap_size (audioCache st);
          responseTime = clk 1 - startTime
      in (st\<lparr>audioCache := [], preloadQueue := []\<rparr>, (200, ClearedBody previousSize responseTime)))"

subsection \<open>Terminal and expired jobs\<close>

text \<open>
  The two nested conditions under which the status handler deletes the job it reports:
  the status is \<open>'completed'\<close> or \<open>'failed'\<close>, and the age, counted from \<open>startTime\<close>,
  is above 300000 ms.
\<close>

definition terminal :: "preload_job \<Rightarrow> bool" where
  "terminal d = (status d = Completed \<or> status d = Failed)"

definition expired :: "int \<Rightarrow> preload_job \<Rightarrow> bool" where
  "expired now d = (terminal d \<and> now - startTime d > 300000)"

subsection \<open>The event loop\<close>

text \<open>
  The process runs one callback at a time. Request handlers run in the poll phase of
  Node's event loop; the callbacks given to \<open>setImmediate\<close> run in the check phase that
  follows it, in the order they were scheduled; the \<open>setInterval\<close> callback runs in the
  timers phase, which the loop reaches only after the check phase has run every
  \<open>setImmediate\<close> callback scheduled before it. A node is the state of the process
  between two callbacks: the three Maps, the jobs whose resolution pass is scheduled and
  has not run yet, and the ids \<open>crypto.randomUUID()\<close> has returned, which it does not
  return again. \<open>GET /health\<close>, \<open>GET /cache/stats\<close> and, while the process lives,
  \<open>GET /play\<close> leave the node as it is.
\<close>

record node =
  mem :: state
  immediates :: "preload_job list"
  issued :: "jsstring list"

definition node_start :: node where
  "node_start =
     \<lparr> mem = \<lparr> audioCache = [], preloadQueue = [], requestMetrics = [] \<rparr>,
       immediates = [], issued = [] \<rparr>"

definition schedule :: "preload_job option \<Rightarrow> preload_job list" where
  "schedule task = (case task of None \<Rightarrow> [] | Some job \<Rightarrow> [job])"

inductive reachable :: "env \<Rightarrow> audio_config \<Rightarrow> node \<Rightarrow> bool" for e :: env and cfg :: audio_config where
  start: "reachable e cfg node_start"
| audio: "reachable e cfg s \<Longrightarrow>
          reachable e cfg (s\<lparr>mem := fst (http_post_audio e cfg clk (mem s) r)\<rparr>)"
| preload: "reachable e cfg s \<Longrightarrow> preloadId \<notin> set (issued s) \<Longrightarrow>
            reachable e cfg
              \<lparr> mem = fst (http_post_preload cfg e clk preloadId (mem s) r),
                immediates = immediates s @ schedule (snd (snd (http_post_preload cfg e clk preloadId (mem s) r))),
                issued = preloadId # issued s \<rparr>"
| status: "reachable e cfg s \<Longrightarrow>
           reachable e cfg (s\<lparr>mem := fst (preload_get clk (mem s) i)\<rparr>)"
| clear: "reachable e cfg s \<Longrightarrow>
          reachable e cfg (s\<lparr>mem := fst (cache_clear clk (mem s))\<rparr>)"
| immediate: "reachable e cfg s \<Longrightarrow> immediates s = job # rest \<Longrightarrow>
              reachable e cfg (s\<lparr>mem := fst (resolution_pass e cfg clk (mem s) job), immediates := rest\<rparr>)"
| timer: "reachable e cfg s \<Longrightarrow> immediates s = [] \<Longrightarrow>
          reachable e cfg (s\<lparr>mem := sweep clk (mem s)\<rparr>)"


subsection \<open>The cache within its capacity\<close>

text \<open>The cache is a \<open>Map\<close> (each key once) that holds at most \<open>MAX_CACHE_SIZE\<close> entries.\<close>

definition cache_inv :: "audio_config \<Rightarrow> ('k, 'v) jsmap \<Rightarrow> bool" where
  "cache_inv cfg c = (jsmap_wf c \<and> jsmap_size c \<le> MAX_CACHE_SIZE cfg)"

text \<open>
  Every record in the cache carries, as its \<open>audioUrl\<close>, the URL that
  \<open>generateAudioUrl\<close> builds for the record's own text and language.
\<close>

definition tts_record :: "env \<Rightarrow> audio_config \<Rightarrow> cache_record \<Rightarrow> bool" where
  "tts_record e cfg r = (generateAudioUrl e cfg (cr_text r) (cr_language r) = Inr (cr_audioUrl r))"

definition cache_tts :: "env \<Rightarrow> audio_config \<Rightarrow> cache \<Rightarrow> bool" where
  "cache_tts e cfg c = list_all (\<lambda>p. tts_record e cfg (snd p)) c"

subsection \<open>The text-validity predicate as the specification words it\<close>

text \<open>
  A string that is not empty, has at most 100 characters (UTF-16 code units, which is
  what \<open>length\<close> counts) and contains a character of the CJK Unified Ideographs block
  (\<open>U+4E00\<close> to \<open>U+9FFF\<close>) or of Extension A (\<open>U+3400\<close> to \<open>U+4DBF\<close>).
\<close>

definition spec_text_valid :: "json \<Rightarrow> bool" where
  "spec_text_valid v =
     (case v of
        JStr s \<Rightarrow> s \<noteq> [] \<and> length s \<le> 100
                  \<and> (\<exists>c \<in> set s. (0x4E00 \<le> c \<and> c \<le> 0x9FFF) \<or> (0x3400 \<le> c \<and> c \<le> 0x4DBF))
      | _ \<Rightarrow> False)"

text \<open>
  The conditions on a preload batch as the specification lists them: \<open>texts\<close> is a list
  of 1 to 10 entries, every one a valid text, and the language is supported.
\<close>

definition spec_batch_valid :: "audio_config \<Rightarrow> req_body \<Rightarrow> bool" where
  "spec_batch_valid cfg b =
     (isArray (body_texts b)
      \<and> 1 \<le> length (arr_val (body_texts b)) \<and> length (arr_val (body_texts b)) \<le> 10
      \<and> list_all spec_text_valid (arr_val (body_texts b))
      \<and> language_supported cfg (default_language cfg (body_language b)))"

subsection \<open>Concrete inputs\<close>

text \<open>The configuration of the eviction scenario: the service's, with capacity 5.\<close>

definition cfg5 :: audio_config where
  "cfg5 = AUDIO_CONFIG\<lparr>MAX_CACHE_SIZE := 5\<rparr>"

definition sample_record :: "jsstring \<Rightarrow> cache_record" where
  "sample_record k =
     \<lparr> cr_audioUrl = js ''https://translate.google.com/translate_tts?q='' @ k,
       cr_text = k,
       cr_language = js ''zh-CN'',
       cr_timestamp = js ''2025-01-01T00:00:00.000Z'' \<rparr>"

definition cacheAE :: cache where
  "cacheAE = map (\<lambda>k. (k, sample_record k)) [js ''A'', js ''B'', js ''C'', js ''D'', js ''E'']"

text \<open>A clock that reads \<open>t\<close> at every read of one callback.\<close>

definition const_clock :: "int \<Rightarrow> clock" where
  "const_clock t = (\<lambda>n. t)"

text \<open>
  The text \<open>U+4F60 U+597D\<close>, a job for it created at time 0 in each of the three states,
  and the registries that hold one of them.
\<close>

definition nihao :: jsstring where
  "nihao = [0x4f60, 0x597d]"

definition job_processing :: preload_job where
  "job_processing =
     \<lparr> job_id = js ''job-1'', texts = [nihao], language = js ''zh-CN'', status = Processing,
       results = [], startTime = 0, timestamp = js ''1970-01-01T00:00:00.000Z'',
       completedTime = None, processingDuration = None, error = None \<rparr>"

definition job_completed :: preload_job where
  "job_completed =
     job_processing
       \<lparr> status := Completed,
         results := [\<lparr> res_text = nihao, res_audioUrl = js ''/play/k'', res_cached = False \<rparr>],
         completedTime := Some 200000, processingDuration := Some 200000 \<rparr>"

definition state_with_job :: "preload_job \<Rightarrow> state" where
  "state_with_job d = \<lparr> audioCache = [], preloadQueue = [(job_id d, d)], requestMetrics = [] \<rparr>"

text \<open>
  Collaborators for the concrete runs: a digest that returns its input, an encoder that
  joins the parameters, a fixed time stamp; and the same with a digest that throws the
  given message.
\<close>

definition env_sample :: env where
  "env_sample =
     \<lparr> md5_hex = (\<lambda>s. Inr s),
       url_search_params = (\<lambda>ps. Inr (concat (map (\<lambda>p. fst p @ js ''='' @ snd p @ js ''&'') ps))),
       toISOString = (\<lambda>t. js ''1970-01-01T00:00:00.000Z'') \<rparr>"

definition env_failing :: "exn \<Rightarrow> env" where
  "env_failing msg = env_sample\<lparr>md5_hex := (\<lambda>s. Inl msg)\<rparr>"

text \<open>
  The text \<open>U+5B66 U+4E60\<close>, a preload request for two texts with the default language,
  the empty state, and the job the handler builds for that request when every clock read
  gives 0.
\<close>

definition xuexi :: jsstring where
  "xuexi = [0x5b66, 0x4e60]"

definition request_two :: req_body where
  "request_two =
     \<lparr> body_text = JUndefined, body_texts = JArr [JStr nihao, JStr xuexi], body_language = JUndefined \<rparr>"

definition empty_state :: state where
  "empty_state = \<lparr> audioCache = [], preloadQueue = [], requestMetrics = [] \<rparr>"

definition job_two :: preload_job where
  "job_two =
     \<lparr> job_id = js ''job-2'', texts = [nihao, xuexi], language = js ''zh-CN'', status = Processing,
       results = [], startTime = 0, timestamp = js ''1970-01-01T00:00:00.000Z'',
       completedTime = None, processingDuration = None, error = None \<rparr>"

definition state_two :: state where
  "state_two =
     \<lparr> audioCache = [], preloadQueue = [(js ''job-2'', job_two)],
       requestMetrics = [(js ''/preload'', [0])] \<rparr>"

text \<open>The job and the state after a pass whose digest throws \<open>msg\<close>.\<close>

definition failed_job :: "exn \<Rightarrow> preload_job" where
  "failed_job msg = snd (resolution_pass (env_failing msg) AUDIO_CONFIG (const_clock 5) state_two job_two)"

definition failed_state :: "exn \<Rightarrow> state" where
  "failed_state msg = fst (resolution_pass (env_failing msg) AUDIO_CONFIG (const_clock 5) state_two job_two)"

text \<open>An \<open>/audio\<close> request with a text that has no Chinese character, and one with a valid text.\<close>

definition request_hello :: req_body where
  "request_hello =
     \<lparr> body_text = JStr (js ''hello''), body_texts = JUndefined, body_language = JUndefined \<rparr>"


text \<open>A preload request whose second text is a number.\<close>

definition request_bad_batch :: req_body where
  "request_bad_batch =
     \<lparr> body_text = JUndefined, body_texts = JArr [JStr nihao, JNum 7], body_language = JUndefined \<rparr>"

text \<open>
  A state whose cache holds the record of \<open>A\<close>, and three upstreams: one that answers
  with two bytes, one whose connection fails, one that stays silent until the timeout.
\<close>

definition state_cached_A :: state where
  "state_cached_A =
     \<lparr> audioCache = [(js ''A'', sample_record (js ''A''))], preloadQueue = [], requestMetrics = [] \<rparr>"

definition upstream_ok :: "jsstring \<Rightarrow> upstream_event list" where
  "upstream_ok url = [UpResponse [0x49, 0x44]]"

definition upstream_refused :: "jsstring \<Rightarrow> upstream_event list" where
  "upstream_refused url = [UpError (js ''connect ECONNREFUSED'')]"

definition upstream_silent :: "jsstring \<Rightarrow> upstream_event list" where
  "upstream_silent url = [UpTimeout]"

text \<open>
  A request body of the given length on the wire; a text of 40000 ideographs and the
  \<open>/audio\<close> request that carries it, 120000 bytes of UTF-8 and 11 more around them; a
  preload request whose only element is the object \<open>{"toString": 1}\<close>.
\<close>

definition wire :: "nat \<Rightarrow> req_body \<Rightarrow> request" where
  "wire n b = \<lparr> content_length = n, parsed = b \<rparr>"

definition long_text :: jsstring where
  "long_text = replicate 40000 0x4f60"

definition request_long :: request where
  "request_long =
     wire 120011 \<lparr> body_text = JStr long_text, body_texts = JUndefined, body_language = JUndefined \<rparr>"

definition request_object_element :: req_body where
  "request_object_element =
     \<lparr> body_text = JUndefined, body_texts = JArr [JObj [(js ''toString'', JNum 1)]],
       body_language = JUndefined \<rparr>"









section \<open>Properties\<close>

subsection \<open>The Map\<close>

lemma jsmap_get_map_of: "jsmap_get m k = map_of m k"
  by (induction m) auto

lemma jsmap_has_iff: "jsmap_has m k \<longleftrightarrow> k \<in> set (map fst m)"
  by (simp add: jsmap_has_def jsmap_get_map_of map_of_eq_None_iff)

lemma jsmap_set_absent: "\<not> jsmap_has m k \<Longrightarrow> jsmap_set m k v = m @ [(k, v)]"
  by (induction m) (auto simp: jsmap_has_def)

lemma jsmap_set_keys_present: "jsmap_has m k \<Longrightarrow> map fst (jsmap_set m k v) = map fst m"
  by (induction m) (auto simp: jsmap_has_def)

lemma jsmap_get_set_same: "jsmap_get (jsmap_set m k v) k = Some v"
  by (induction m) auto

lemma jsmap_get_set_other: "k' \<noteq> k \<Longrightarrow> jsmap_get (jsmap_set m k v) k' = jsmap_get m k'"
  by (induction m) auto

lemma jsmap_set_length: "length (jsmap_set m k v) = (if jsmap_has m k then length m else Suc (length m))"
  by (induction m) (auto simp: jsmap_has_def)

lemma jsmap_has_delete: "jsmap_has (jsmap_delete m k) k' \<longleftrightarrow> jsmap_has m k' \<and> k' \<noteq> k"
  by (auto simp: jsmap_has_iff jsmap_delete_def)

lemma jsmap_get_delete: "jsmap_get (jsmap_delete m k) k' = (if k' = k then None else jsmap_get m k')"
  by (induction m) (auto simp: jsmap_delete_def)

lemma delete_keys_filter: "delete_keys ks m = filter (\<lambda>p. fst p \<notin> set ks) m"
proof (induction ks arbitrary: m)
  case Nil
  then show ?case by simp
next
  case (Cons k ks)
  have "delete_keys (k # ks) m = filter (\<lambda>p. fst p \<notin> set ks) (filter (\<lambda>p. fst p \<noteq> k) m)"
    by (simp add: Cons.IH jsmap_delete_def)
  also have "\<dots> = filter (\<lambda>p. fst p \<notin> set (k # ks)) m"
    by (simp add: conj_commute)
  finally show ?case .
qed

lemma filter_drop_prefix_keys:
  "distinct (map fst m) \<Longrightarrow> filter (\<lambda>p. fst p \<notin> set (map fst (take n m))) m = drop n m"
proof (induction m arbitrary: n)
  case Nil
  then show ?case by simp
next
  case (Cons p ps)
  show ?case
  proof (cases n)
    case 0
    then show ?thesis by simp
  next
    case (Suc j)
    from Cons.prems have d: "distinct (map fst ps)" and np: "fst p \<notin> set (map fst ps)"
      by simp_all
    have "filter (\<lambda>q. fst q \<notin> set (map fst (take n (p # ps)))) (p # ps)
            = filter (\<lambda>q. fst q \<noteq> fst p \<and> fst q \<notin> set (map fst (take j ps))) ps"
      using Suc by simp
    also have "\<dots> = filter (\<lambda>q. fst q \<notin> set (map fst (take j ps))) ps"
      using np by (intro filter_cong) (auto simp: image_iff)
    also have "\<dots> = drop j ps"
      using Cons.IH [OF d] .
    finally show ?thesis using Suc by simp
  qed
qed

subsection \<open>Eviction\<close>

lemma cleanCache_reads_in_range:
  "jsmap_size m \<ge> MAX_CACHE_SIZE cfg \<Longrightarrow> entriesToRemove cfg \<le> length m"
  by (simp add: entriesToRemove_def jsmap_size_def)

lemma cleanCache_full:
  "jsmap_wf m \<Longrightarrow> jsmap_size m \<ge> MAX_CACHE_SIZE cfg \<Longrightarrow> cleanCache cfg m = drop (entriesToRemove cfg) m"
  using filter_drop_prefix_keys [of m "entriesToRemove cfg"]
  by (simp add: cleanCache_def delete_keys_filter jsmap_wf_def)

lemma cleanCache_not_full:
  "jsmap_size m < MAX_CACHE_SIZE cfg \<Longrightarrow> cleanCache cfg m = m"
  by (simp add: cleanCache_def)

lemma cleanCache_wf: "jsmap_wf m \<Longrightarrow> jsmap_wf (cleanCache cfg m)"
  by (simp add: cleanCache_def delete_keys_filter jsmap_wf_def distinct_map_filter)

lemma jsmap_set_wf: "jsmap_wf m \<Longrightarrow> jsmap_wf (jsmap_set m k v)"
proof (cases "jsmap_has m k")
  case True
  assume "jsmap_wf m"
  then show ?thesis using True by (simp add: jsmap_wf_def jsmap_set_keys_present)
next
  case False
  assume "jsmap_wf m"
  then show ?thesis using False
    by (simp add: jsmap_wf_def jsmap_set_absent) (simp add: jsmap_has_iff)
qed

lemma cleanCache_has: "jsmap_has (cleanCache cfg m) k \<Longrightarrow> jsmap_has m k"
  by (auto simp: cleanCache_def delete_keys_filter jsmap_has_iff split: if_splits)

lemma cleanCache_size: "jsmap_size (cleanCache cfg c) \<le> jsmap_size c"
  by (simp add: cleanCache_def delete_keys_filter jsmap_size_def)

lemma cache_put_inv:
  assumes cap: "5 \<le> MAX_CACHE_SIZE cfg" and inv: "cache_inv cfg c"
  shows "cache_inv cfg (cache_put cfg c k v)"
proof -
  from inv have wf: "jsmap_wf c" and le: "jsmap_size c \<le> MAX_CACHE_SIZE cfg"
    by (simp_all add: cache_inv_def)
  have wf': "jsmap_wf (cache_put cfg c k v)"
    unfolding cache_put_def by (intro jsmap_set_wf cleanCache_wf wf)
  have "jsmap_size (cache_put cfg c k v) \<le> MAX_CACHE_SIZE cfg"
  proof (cases "jsmap_has (cleanCache cfg c) k")
    case True
    then have "jsmap_size (cache_put cfg c k v) = jsmap_size (cleanCache cfg c)"
      by (simp add: cache_put_def jsmap_size_def jsmap_set_length)
    with cleanCache_size [of cfg c] le show ?thesis by simp
  next
    case False
    then have s: "jsmap_size (cache_put cfg c k v) = Suc (jsmap_size (cleanCache cfg c))"
      by (simp add: cache_put_def jsmap_size_def jsmap_set_length)
    show ?thesis
    proof (cases "jsmap_size c \<ge> MAX_CACHE_SIZE cfg")
      case True
      have "jsmap_size (cleanCache cfg c) = jsmap_size c - MAX_CACHE_SIZE cfg div 5"
        by (simp add: cleanCache_full [OF wf True] jsmap_size_def entriesToRemove_def)
      with s True le cap show ?thesis by simp
    next
      case False
      then show ?thesis
        using s by (simp add: cleanCache_not_full)
    qed
  qed
  with wf' show ?thesis by (simp add: cache_inv_def)
qed

text \<open>
  C1. A put into the bounded cache is \<open>cleanCache\<close> followed by \<open>set\<close>. When the cache
  holds \<open>MAX_CACHE_SIZE\<close> entries or more before the put, exactly
  \<open>floor(MAX_CACHE_SIZE * 0.2)\<close> entries are evicted, the oldest by insertion order,
  before the entry is set; under a key the cache did not hold (the only way the two
  insert paths run) the new entry is appended to those that remain. When the cache holds
  fewer entries, nothing is evicted. The record is stored under its key in both cases,
  and for a capacity of at least 5 (the service's is 1000, the scenario's is 5) a cache
  within its capacity is within it afterwards.
\<close>

theorem cache_put_evicts_oldest_fifth:
  assumes wf: "jsmap_wf c"
    and cap: "5 \<le> MAX_CACHE_SIZE cfg"
    and bounded: "jsmap_size c \<le> MAX_CACHE_SIZE cfg"
  shows "(jsmap_size c \<ge> MAX_CACHE_SIZE cfg \<longrightarrow>
            length (take (entriesToRemove cfg) c) = MAX_CACHE_SIZE cfg div 5
          \<and> cleanCache cfg c = drop (entriesToRemove cfg) c
          \<and> cache_put cfg c k v = jsmap_set (drop (entriesToRemove cfg) c) k v
          \<and> (\<not> jsmap_has c k \<longrightarrow> cache_put cfg c k v = drop (entriesToRemove cfg) c @ [(k, v)]))
       \<and> (jsmap_size c < MAX_CACHE_SIZE cfg \<longrightarrow>
            cleanCache cfg c = c
          \<and> cache_put cfg c k v = jsmap_set c k v
          \<and> (\<not> jsmap_has c k \<longrightarrow> cache_put cfg c k v = c @ [(k, v)]))
       \<and> jsmap_get (cache_put cfg c k v) k = Some v
       \<and> jsmap_size (cache_put cfg c k v) \<le> MAX_CACHE_SIZE cfg"
proof -
  have put: "cache_put cfg c k v = cleanCache cfg c @ [(k, v)]" if absent: "\<not> jsmap_has c k"
  proof -
    have "\<not> jsmap_has (cleanCache cfg c) k"
    proof
      assume "jsmap_has (cleanCache cfg c) k"
      then have "jsmap_has c k" by (rule cleanCache_has)
      with absent show False by simp
    qed
    then show ?thesis
      unfolding cache_put_def by (rule jsmap_set_absent)
  qed
  have full: "cleanCache cfg c = drop (entriesToRemove cfg) c"
    if "jsmap_size c \<ge> MAX_CACHE_SIZE cfg"
    using cleanCache_full [OF wf that] .
  have notfull: "cleanCache cfg c = c" if "jsmap_size c < MAX_CACHE_SIZE cfg"
    using cleanCache_not_full [OF that] .
  have len: "length (take (entriesToRemove cfg) c) = MAX_CACHE_SIZE cfg div 5"
    if "jsmap_size c \<ge> MAX_CACHE_SIZE cfg"
    using that by (simp add: entriesToRemove_def jsmap_size_def)
  have stored: "jsmap_get (cache_put cfg c k v) k = Some v"
    by (simp add: cache_put_def jsmap_get_set_same)
  have size: "jsmap_size (cache_put cfg c k v) \<le> MAX_CACHE_SIZE cfg"
    using cache_put_inv [OF cap, of c k v] wf bounded by (simp add: cache_inv_def)
  have A: "jsmap_size c \<ge> MAX_CACHE_SIZE cfg \<longrightarrow>
            length (take (entriesToRemove cfg) c) = MAX_CACHE_SIZE cfg div 5
          \<and> cleanCache cfg c = drop (entriesToRemove cfg) c
          \<and> cache_put cfg c k v = jsmap_set (drop (entriesToRemove cfg) c) k v
          \<and> (\<not> jsmap_has c k \<longrightarrow> cache_put cfg c k v = drop (entriesToRemove cfg) c @ [(k, v)])"
  proof (intro impI conjI)
    assume h: "jsmap_size c \<ge> MAX_CACHE_SIZE cfg"
    show "length (take (entriesToRemove cfg) c) = MAX_CACHE_SIZE cfg div 5" by (rule len [OF h])
    show "cleanCache cfg c = drop (entriesToRemove cfg) c" by (rule full [OF h])
    show "cache_put cfg c k v = jsmap_set (drop (entriesToRemove cfg) c) k v"
      unfolding cache_put_def full [OF h] ..
    assume "\<not> jsmap_has c k"
    from put [OF this] show "cache_put cfg c k v = drop (entriesToRemove cfg) c @ [(k, v)]"
      unfolding full [OF h] .
  qed
  have B: "jsmap_size c < MAX_CACHE_SIZE cfg \<longrightarrow>
            cleanCache cfg c = c
          \<and> cache_put cfg c k v = jsmap_set c k v
          \<and> (\<not> jsmap_has c k \<longrightarrow> cache_put cfg c k v = c @ [(k, v)])"
  proof (intro impI conjI)
    assume h: "jsmap_size c < MAX_CACHE_SIZE cfg"
    show "cleanCache cfg c = c" by (rule notfull [OF h])
    show "cache_put cfg c k v = jsmap_set c k v"
      unfolding cache_put_def notfull [OF h] ..
    assume "\<not> jsmap_has c k"
    from put [OF this] show "cache_put cfg c k v = c @ [(k, v)]"
      unfolding notfull [OF h] .
  qed
  from A B stored size show ?thesis by blast
qed

theorem cache_put_evicts_oldest_fifth_witness:
  "jsmap_wf cacheAE \<and> \<not> jsmap_has cacheAE (js ''F'')
   \<and> 5 \<le> MAX_CACHE_SIZE cfg5 \<and> jsmap_size cacheAE \<le> MAX_CACHE_SIZE cfg5
   \<and> jsmap_size cacheAE \<ge> MAX_CACHE_SIZE cfg5
   \<and> length (take (entriesToRemove cfg5) cacheAE) = 1
   \<and> map fst (cache_put cfg5 cacheAE (js ''F'') (sample_record (js ''F'')))
        = [js ''B'', js ''C'', js ''D'', js ''E'', js ''F'']"
proof -
  have wf: "jsmap_wf cacheAE"
    by (simp add: jsmap_wf_def cacheAE_def js_def)
  have absent: "\<not> jsmap_has cacheAE (js ''F'')"
    by (simp add: jsmap_has_def cacheAE_def js_def)
  have cap: "5 \<le> MAX_CACHE_SIZE cfg5"
    by (simp add: cfg5_def)
  have bounded: "jsmap_size cacheAE \<le> MAX_CACHE_SIZE cfg5"
    by (simp add: cfg5_def jsmap_size_def cacheAE_def)
  have full: "jsmap_size cacheAE \<ge> MAX_CACHE_SIZE cfg5"
    by (simp add: cfg5_def jsmap_size_def cacheAE_def)
  have n: "entriesToRemove cfg5 = 1"
    by (simp add: entriesToRemove_def cfg5_def)
  from cache_put_evicts_oldest_fifth [OF wf cap bounded, of "js ''F''" "sample_record (js ''F'')"] full absent
  have "cache_put cfg5 cacheAE (js ''F'') (sample_record (js ''F''))
          = drop (entriesToRemove cfg5) cacheAE @ [(js ''F'', sample_record (js ''F''))]"
    by blast
  then have "map fst (cache_put cfg5 cacheAE (js ''F'') (sample_record (js ''F'')))
        = [js ''B'', js ''C'', js ''D'', js ''E'', js ''F'']"
    by (simp add: n cacheAE_def)
  moreover have "length (take (entriesToRemove cfg5) cacheAE) = 1"
    by (simp add: n cacheAE_def)
  ultimately show ?thesis
    using wf absent cap bounded full by blast
qed

text \<open>The same scenario from the empty cache: five puts fill it, the sixth evicts \<open>A\<close>.\<close>

lemma five_puts_then_F:
  "map fst (cache_put cfg5
       (fold (\<lambda>k c. cache_put cfg5 c k (sample_record k)) [js ''A'', js ''B'', js ''C'', js ''D'', js ''E''] [])
       (js ''F'') (sample_record (js ''F'')))
     = [js ''B'', js ''C'', js ''D'', js ''E'', js ''F'']"
  by (simp add: cache_put_def cleanCache_def jsmap_size_def entriesToRemove_def cfg5_def jsmap_delete_def js_def)

subsection \<open>The job registry\<close>

lemma sweep_loop_filter:
  "sweep_loop now cutoff es q
     = filter (\<lambda>p. fst p \<notin> set (map fst (filter (\<lambda>x. now - startTime (snd x) > cutoff) es))) q"
proof (induction es arbitrary: q)
  case Nil
  then show ?case by simp
next
  case (Cons x es)
  obtain i d where x: "x = (i, d)" by (cases x)
  let ?old = "set (map fst (filter (\<lambda>x. now - startTime (snd x) > cutoff) es))"
  show ?case
  proof (cases "now - startTime d > cutoff")
    case True
    have "sweep_loop now cutoff (x # es) q
            = filter (\<lambda>p. fst p \<notin> ?old) (filter (\<lambda>p. fst p \<noteq> i) q)"
      using True by (simp add: x Cons.IH jsmap_delete_def)
    also have "\<dots> = filter (\<lambda>p. fst p \<noteq> i \<and> fst p \<notin> ?old) q"
      by (simp add: conj_commute)
    finally show ?thesis
      using True by (simp add: x)
  next
    case False
    then show ?thesis
      by (simp add: x Cons.IH)
  qed
qed

lemma wf_get_of_mem: "jsmap_wf q \<Longrightarrow> (i, d) \<in> set q \<Longrightarrow> jsmap_get q i = Some d"
  by (simp add: jsmap_wf_def jsmap_get_map_of)

lemma sweep_queue:
  assumes "jsmap_wf (preloadQueue st)"
  shows "preloadQueue (sweep clk st)
           = filter (\<lambda>p. \<not> clk 0 - startTime (snd p) > 300000) (preloadQueue st)"
proof -
  let ?q = "preloadQueue st"
  have "preloadQueue (sweep clk st)
          = filter (\<lambda>p. fst p \<notin> set (map fst (filter (\<lambda>x. clk 0 - startTime (snd x) > 300000) ?q))) ?q"
    by (simp add: sweep_def sweep_loop_filter)
  also have "\<dots> = filter (\<lambda>p. \<not> clk 0 - startTime (snd p) > 300000) ?q"
  proof (rule filter_cong [OF refl])
    fix p assume p: "p \<in> set ?q"
    obtain i d where pd: "p = (i, d)" by (cases p)
    have "fst p \<in> set (map fst (filter (\<lambda>x. clk 0 - startTime (snd x) > 300000) ?q))
            \<longleftrightarrow> clk 0 - startTime (snd p) > 300000"
    proof
      assume "fst p \<in> set (map fst (filter (\<lambda>x. clk 0 - startTime (snd x) > 300000) ?q))"
      then obtain d' where m: "(i, d') \<in> set ?q" and old: "clk 0 - startTime d' > 300000"
        by (auto simp: pd)
      from wf_get_of_mem [OF assms m] wf_get_of_mem [OF assms p [unfolded pd]]
      have "d' = d" by simp
      with old show "clk 0 - startTime (snd p) > 300000" by (simp add: pd)
    next
      assume "clk 0 - startTime (snd p) > 300000"
      with p show "fst p \<in> set (map fst (filter (\<lambda>x. clk 0 - startTime (snd x) > 300000) ?q))"
        by force
    qed
    then show "(fst p \<notin> set (map fst (filter (\<lambda>x. clk 0 - startTime (snd x) > 300000) ?q)))
                 = (\<not> clk 0 - startTime (snd p) > 300000)"
      by simp
  qed
  finally show ?thesis .
qed

lemma jsmap_get_filter_wf:
  "jsmap_wf q \<Longrightarrow> jsmap_get (filter (\<lambda>p. P (snd p)) q) i
     = (case jsmap_get q i of None \<Rightarrow> None | Some d \<Rightarrow> if P d then Some d else None)"
proof (induction q)
  case Nil
  then show ?case by simp
next
  case (Cons x q)
  from Cons.prems have wf: "jsmap_wf q" and nx: "fst x \<notin> fst ` set q"
    by (simp_all add: jsmap_wf_def)
  have none: "jsmap_get q (fst x) = None"
    using nx by (simp add: jsmap_get_map_of map_of_eq_None_iff)
  show ?case
    using Cons.IH [OF wf] none by (auto split: option.splits)
qed

lemma preload_get_absent:
  "jsmap_get (preloadQueue st) i = None \<Longrightarrow>
     preload_get clk st i = (st, (404, ErrorBody (js ''Preload request not found'') (PreloadId i)))"
  by (simp add: preload_get_def)

lemma preload_get_present:
  "jsmap_get (preloadQueue st) i = Some d \<Longrightarrow>
     preload_get clk st i
       = (st\<lparr>preloadQueue := (if expired (clk 2) d then jsmap_delete (preloadQueue st) i
                               else preloadQueue st)\<rparr>,
          status_response i d (clk 1 - clk 0))"
  by (simp add: preload_get_def expired_def terminal_def Let_def)

text \<open>
  C3, as stated, fails. A Completed job created at time 0 and queried at time 300001 is
  expired, and the query answers 200 with the state of the job.
\<close>

theorem expired_job_reported_counterexample:
  "expired 300001 job_completed
   \<and> jsmap_get (preloadQueue (state_with_job job_completed)) (js ''job-1'') = Some job_completed
   \<and> snd (preload_get (const_clock 300001) (state_with_job job_completed) (js ''job-1''))
        = status_response (js ''job-1'') job_completed 0
   \<and> fst (snd (preload_get (const_clock 300001) (state_with_job job_completed) (js ''job-1''))) = 200"
  by (simp add: preload_get_def expired_def terminal_def state_with_job_def job_completed_def
        job_processing_def const_clock_def status_response_def)

text \<open>
  C3, amended. The status query answers 404 exactly when the registry does not hold the
  id, and the registry is then unchanged. When the registry holds the id, the query
  answers 200 with the state of the job, expired or not; an expired job is deleted by
  that same query, so the next query for the id answers 404. Nothing else in the state
  changes.
\<close>

theorem preload_get_reports_then_deletes:
  "(jsmap_get (preloadQueue st) i = None \<longrightarrow>
      preload_get clk st i = (st, (404, ErrorBody (js ''Preload request not found'') (PreloadId i))))
   \<and> (\<forall>d. jsmap_get (preloadQueue st) i = Some d \<longrightarrow>
          snd (preload_get clk st i) = status_response i d (clk 1 - clk 0)
        \<and> fst (status_response i d (clk 1 - clk 0)) = 200
        \<and> preloadQueue (fst (preload_get clk st i))
            = (if expired (clk 2) d then jsmap_delete (preloadQueue st) i else preloadQueue st)
        \<and> audioCache (fst (preload_get clk st i)) = audioCache st
        \<and> requestMetrics (fst (preload_get clk st i)) = requestMetrics st
        \<and> (expired (clk 2) d \<longrightarrow>
              fst (snd (preload_get clk' (fst (preload_get clk st i)) i)) = 404))"
proof (intro conjI impI allI)
  assume "jsmap_get (preloadQueue st) i = None"
  then show "preload_get clk st i = (st, (404, ErrorBody (js ''Preload request not found'') (PreloadId i)))"
    by (rule preload_get_absent)
next
  fix d assume d: "jsmap_get (preloadQueue st) i = Some d"
  note pg = preload_get_present [OF d, of clk]
  show "snd (preload_get clk st i) = status_response i d (clk 1 - clk 0)"
    by (simp add: pg)
  show "fst (status_response i d (clk 1 - clk 0)) = 200"
    by (simp add: status_response_def)
  show "preloadQueue (fst (preload_get clk st i))
            = (if expired (clk 2) d then jsmap_delete (preloadQueue st) i else preloadQueue st)"
    by (simp add: pg)
  show "audioCache (fst (preload_get clk st i)) = audioCache st"
    by (simp add: pg)
  show "requestMetrics (fst (preload_get clk st i)) = requestMetrics st"
    by (simp add: pg)
  assume e: "expired (clk 2) d"
  have "jsmap_get (preloadQueue (fst (preload_get clk st i))) i = None"
    using e by (simp add: pg jsmap_get_delete)
  then show "fst (snd (preload_get clk' (fst (preload_get clk st i)) i)) = 404"
    by (simp add: preload_get_absent)
qed

theorem preload_get_reports_then_deletes_witness:
  "jsmap_get (preloadQueue (state_with_job job_completed)) (js ''job-2'') = None
   \<and> fst (snd (preload_get (const_clock 300001) (state_with_job job_completed) (js ''job-2''))) = 404
   \<and> jsmap_get (preloadQueue (state_with_job job_completed)) (js ''job-1'') = Some job_completed
   \<and> expired (const_clock 300001 2) job_completed
   \<and> fst (snd (preload_get (const_clock 300001) (state_with_job job_completed) (js ''job-1''))) = 200
   \<and> fst (snd (preload_get (const_clock 300002)
                 (fst (preload_get (const_clock 300001) (state_with_job job_completed) (js ''job-1'')))
                 (js ''job-1''))) = 404"
proof -
  have a: "jsmap_get (preloadQueue (state_with_job job_completed)) (js ''job-2'') = None"
    by (simp add: state_with_job_def job_completed_def job_processing_def js_def)
  have p: "jsmap_get (preloadQueue (state_with_job job_completed)) (js ''job-1'') = Some job_completed"
    by (simp add: state_with_job_def job_completed_def job_processing_def)
  have e: "expired (const_clock 300001 2) job_completed"
    by (simp add: expired_def terminal_def const_clock_def job_completed_def job_processing_def)
  from preload_get_reports_then_deletes
         [of "state_with_job job_completed" "js ''job-2''" "const_clock 300001"] a
  have r1: "fst (snd (preload_get (const_clock 300001) (state_with_job job_completed) (js ''job-2''))) = 404"
    by simp
  from preload_get_reports_then_deletes
         [of "state_with_job job_completed" "js ''job-1''" "const_clock 300001" "const_clock 300002"] p e
  have r2: "fst (snd (preload_get (const_clock 300001) (state_with_job job_completed) (js ''job-1''))) = 200"
    and r3: "fst (snd (preload_get (const_clock 300002)
                 (fst (preload_get (const_clock 300001) (state_with_job job_completed) (js ''job-1'')))
                 (js ''job-1''))) = 404"
    by simp_all
  from a p e r1 r2 r3 show ?thesis by simp
qed

text \<open>
  A pass that succeeds stamps the job with the time it finished and with the difference
  between that time and \<open>startTime\<close>; it does not move \<open>startTime\<close>.
\<close>

lemma resolution_pass_completed_fields:
  assumes "resolution_pass e cfg clk st pd = (st', d)" and "status d = Completed"
  shows "\<exists>tc. completedTime d = Some tc \<and> processingDuration d = Some (tc - startTime d)
              \<and> startTime d = startTime pd"
  using assms
  by (auto simp: resolution_pass_def Let_def split: prod.splits sum.splits)

text \<open>
  C10. Both deletion paths count a job's age from \<open>startTime\<close>. For a job \<open>d\<close> registered
  under \<open>i\<close>, the sweep at time \<open>now\<close> deletes it exactly when \<open>now - startTime d > 300000\<close>,
  and the status query that reads the clock at \<open>now\<close> deletes it exactly when it is
  terminal and \<open>now - startTime d > 300000\<close>; \<open>completedTime\<close> plays no part. For a job
  that completed at \<open>tc\<close> after a pass of \<open>T = tc - startTime d\<close> ms, the condition is
  \<open>now - tc > 300000 - T\<close>: the job goes once more than \<open>300000 - T\<close> ms have passed since
  it completed.
\<close>

theorem job_age_counts_from_startTime:
  assumes wf: "jsmap_wf (preloadQueue st)"
    and d: "jsmap_get (preloadQueue st) i = Some d"
  shows "(jsmap_has (preloadQueue (sweep clk st)) i \<longleftrightarrow> \<not> clk 0 - startTime d > 300000)
       \<and> (jsmap_has (preloadQueue (fst (preload_get clk st i))) i
            \<longleftrightarrow> \<not> (terminal d \<and> clk 2 - startTime d > 300000))
       \<and> (\<forall>tc T. terminal d \<and> completedTime d = Some tc \<and> processingDuration d = Some T
                  \<and> T = tc - startTime d \<longrightarrow>
             (jsmap_has (preloadQueue (sweep clk st)) i \<longleftrightarrow> \<not> clk 0 - tc > 300000 - T)
           \<and> (jsmap_has (preloadQueue (fst (preload_get clk st i))) i \<longleftrightarrow> \<not> clk 2 - tc > 300000 - T))"
proof -
  have "jsmap_get (preloadQueue (sweep clk st)) i
          = (if \<not> clk 0 - startTime d > 300000 then Some d else None)"
    unfolding sweep_queue [OF wf]
    using jsmap_get_filter_wf [OF wf, of "\<lambda>d. \<not> clk 0 - startTime d > 300000" i]
    by (simp add: d)
  then have s: "jsmap_has (preloadQueue (sweep clk st)) i \<longleftrightarrow> \<not> clk 0 - startTime d > 300000"
    by (simp add: jsmap_has_def)
  have "jsmap_get (preloadQueue (fst (preload_get clk st i))) i
          = (if expired (clk 2) d then None else Some d)"
    by (simp add: preload_get_present [OF d] jsmap_get_delete d)
  then have g: "jsmap_has (preloadQueue (fst (preload_get clk st i))) i
            \<longleftrightarrow> \<not> (terminal d \<and> clk 2 - startTime d > 300000)"
    by (simp add: jsmap_has_def expired_def)
  have t: "(jsmap_has (preloadQueue (sweep clk st)) i \<longleftrightarrow> \<not> clk 0 - tc > 300000 - T)
         \<and> (jsmap_has (preloadQueue (fst (preload_get clk st i))) i \<longleftrightarrow> \<not> clk 2 - tc > 300000 - T)"
    if "terminal d" and "T = tc - startTime d" for tc T
    using that unfolding s g by auto
  from s g t show ?thesis by blast
qed

theorem job_age_counts_from_startTime_witness:
  "jsmap_wf (preloadQueue (state_with_job job_completed))
   \<and> jsmap_get (preloadQueue (state_with_job job_completed)) (js ''job-1'') = Some job_completed
   \<and> terminal job_completed \<and> completedTime job_completed = Some 200000
   \<and> processingDuration job_completed = Some 200000
   \<and> (200000::int) = 200000 - startTime job_completed
   \<and> const_clock 300001 0 - 200000 > (300000::int) - 200000
   \<and> \<not> jsmap_has (preloadQueue (sweep (const_clock 300001) (state_with_job job_completed))) (js ''job-1'')
   \<and> \<not> jsmap_has (preloadQueue (fst (preload_get (const_clock 300001) (state_with_job job_completed) (js ''job-1''))))
           (js ''job-1'')
   \<and> jsmap_has (preloadQueue (sweep (const_clock 300000) (state_with_job job_completed))) (js ''job-1'')"
proof -
  have wf: "jsmap_wf (preloadQueue (state_with_job job_completed))"
    by (simp add: jsmap_wf_def state_with_job_def)
  have g: "jsmap_get (preloadQueue (state_with_job job_completed)) (js ''job-1'') = Some job_completed"
    by (simp add: state_with_job_def job_completed_def job_processing_def)
  have f: "terminal job_completed" "completedTime job_completed = Some 200000"
    "processingDuration job_completed = Some 200000" "startTime job_completed = 0"
    by (simp_all add: terminal_def job_completed_def job_processing_def)
  note th = job_age_counts_from_startTime [OF wf g, THEN conjunct2, THEN conjunct2, rule_format,
              of 200000 200000]
  have r: "\<not> jsmap_has (preloadQueue (sweep (const_clock 300001) (state_with_job job_completed))) (js ''job-1'')"
    "\<not> jsmap_has (preloadQueue (fst (preload_get (const_clock 300001) (state_with_job job_completed) (js ''job-1''))))
           (js ''job-1'')"
    "jsmap_has (preloadQueue (sweep (const_clock 300000) (state_with_job job_completed))) (js ''job-1'')"
    using th [of "const_clock 300001"] th [of "const_clock 300000"] f
    by (simp_all add: const_clock_def)
  from wf g f r show ?thesis by (simp add: const_clock_def)
qed

subsection \<open>The resolution pass\<close>

lemma resolution_loop_texts:
  "resolution_loop e cfg clk lang ts c n rs = (c', n', Inr rs')
     \<Longrightarrow> map res_text rs' = map res_text rs @ ts"
proof (induction ts arbitrary: c n rs)
  case Nil
  then show ?case by simp
next
  case (Cons t ts)
  from Cons.prems obtain k where k: "generateCacheKey e t lang = Inr k"
    by (auto split: sum.splits)
  show ?case
  proof (cases "jsmap_has c k")
    case True
    with Cons.prems k
    have "resolution_loop e cfg clk lang ts c n
            (rs @ [\<lparr> res_text = t, res_audioUrl = js ''/play/'' @ k, res_cached = True \<rparr>])
          = (c', n', Inr rs')"
      by simp
    from Cons.IH [OF this] show ?thesis by simp
  next
    case False
    with Cons.prems k obtain u where u: "generateAudioUrl e cfg t lang = Inr u"
      by (auto split: sum.splits)
    with Cons.prems k False
    have "resolution_loop e cfg clk lang ts
            (cache_put cfg c k \<lparr> cr_audioUrl = u, cr_text = t, cr_language = lang,
                                cr_timestamp = toISOString e (clk n) \<rparr>)
            (Suc n)
            (rs @ [\<lparr> res_text = t, res_audioUrl = js ''/play/'' @ k, res_cached = False \<rparr>])
          = (c', n', Inr rs')"
      by simp
    from Cons.IH [OF this] show ?thesis by simp
  qed
qed

lemma isValidChineseText_string: "isValidChineseText v \<Longrightarrow> JStr (str_val v) = v"
  by (cases v) (simp_all add: isValidChineseText_def)

lemma all_valid_strings:
  "find (\<lambda>t. \<not> isValidChineseText t) xs = None \<Longrightarrow> map JStr (map str_val xs) = xs"
  by (induction xs) (auto simp: isValidChineseText_string split: if_splits)

lemma isArray_arr_val: "isArray v \<Longrightarrow> JArr (arr_val v) = v"
  by (cases v) simp_all

text \<open>What an accepted request leaves behind: the job, registered, and nothing in the cache.\<close>

lemma preload_post_accepted:
  assumes "preload_post cfg e clk pid st b = (st1, resp, Some job)"
  shows "job_id job = pid" and "status job = Processing" and "results job = []"
    and "error job = None" and "body_texts b = JArr (map JStr (texts job))"
    and "jsmap_get (preloadQueue st1) pid = Some job" and "audioCache st1 = audioCache st"
    and "fst resp = 200" and "startTime job = clk 1"
    and "1 \<le> length (texts job)" and "length (texts job) \<le> 10"
proof -
  let ?xs = "arr_val (body_texts b)"
  let ?job = "\<lparr> job_id = pid, texts = map str_val ?xs,
                 language = str_val (default_language cfg (body_language b)),
                 status = Processing, results = [], startTime = clk 1,
                 timestamp = toISOString e (clk 2), completedTime = None,
                 processingDuration = None, error = None \<rparr>"
  from assms have arr: "isArray (body_texts b)" and ne: "?xs \<noteq> []"
    and le: "length ?xs \<le> 10"
    and valid: "find (\<lambda>t. \<not> isValidChineseText t) ?xs = None"
    and job: "job = ?job"
    and q: "preloadQueue st1 = jsmap_set (preloadQueue st) pid ?job"
    and c: "audioCache st1 = audioCache st"
    and r: "fst resp = 200"
    by (auto simp: preload_post_def Let_def split: if_splits option.splits)
  show "job_id job = pid" "status job = Processing" "results job = []" "error job = None"
    "startTime job = clk 1"
    by (simp_all add: job)
  have "JArr (map JStr (map str_val ?xs)) = JArr ?xs"
    by (simp only: all_valid_strings [OF valid])
  then show "body_texts b = JArr (map JStr (texts job))"
    by (simp add: job isArray_arr_val [OF arr])
  show "jsmap_get (preloadQueue st1) pid = Some job"
    by (simp add: q job jsmap_get_set_same)
  show "audioCache st1 = audioCache st" by (rule c)
  show "fst resp = 200" by (rule r)
  show "1 \<le> length (texts job)" using ne by (cases ?xs) (simp_all add: job)
  show "length (texts job) \<le> 10" using le by (simp add: job)
qed

lemma publish_get:
  "jsmap_has q (job_id pd) \<Longrightarrow> jsmap_get (publish q pd) (job_id pd) = Some pd"
  by (simp add: publish_def jsmap_get_set_same)

lemma resolution_pass_success:
  assumes "resolution_loop e cfg clk (language pd) (texts pd) (audioCache st) 0 [] = (c, n, Inr rs)"
  shows "resolution_pass e cfg clk st pd
           = (st\<lparr>audioCache := c,
                 preloadQueue := publish (preloadQueue st)
                    (pd\<lparr> status := Completed, results := rs, completedTime := Some (clk n),
                         processingDuration := Some (clk n - startTime pd) \<rparr>)\<rparr>,
              pd\<lparr> status := Completed, results := rs, completedTime := Some (clk n),
                   processingDuration := Some (clk n - startTime pd) \<rparr>)"
  using assms by (simp add: resolution_pass_def Let_def)

lemma resolution_pass_failure:
  assumes "resolution_loop e cfg clk (language pd) (texts pd) (audioCache st) 0 [] = (c, n, Inl err)"
  shows "resolution_pass e cfg clk st pd
           = (st\<lparr>audioCache := c,
                 preloadQueue := publish (preloadQueue st) (pd\<lparr> status := Failed, error := Some err \<rparr>)\<rparr>,
              pd\<lparr> status := Failed, error := Some err \<rparr>)"
  using assms by (simp add: resolution_pass_def Let_def)

lemma resolution_pass_id: "resolution_pass e cfg clk st pd = (st', pd') \<Longrightarrow> job_id pd' = job_id pd"
  by (auto simp: resolution_pass_def Let_def split: prod.splits sum.splits)

lemma resolution_pass_registered:
  assumes "resolution_pass e cfg clk st pd = (st', pd')" and "jsmap_has (preloadQueue st) (job_id pd)"
  shows "jsmap_get (preloadQueue st') (job_id pd) = Some pd'"
proof -
  have "preloadQueue st' = publish (preloadQueue st) pd'"
    using assms(1) by (auto simp: resolution_pass_def Let_def split: prod.splits sum.splits)
  moreover have "jsmap_has (preloadQueue st) (job_id pd')"
    using assms by (simp add: resolution_pass_id)
  ultimately show ?thesis
    using publish_get [of "preloadQueue st" pd'] resolution_pass_id [OF assms(1)] by simp
qed

text \<open>
  C4. For a job that \<open>POST /preload\<close> accepted and the pass run on it in any state: when
  the loop over the texts ends normally, the job is Completed and its results are the
  loop's, one for each input text, in the input order; when the loop throws, the job is
  Failed and its results are the empty array it was created with. While the job is
  registered, the status query reports exactly that job.
\<close>

theorem resolution_pass_results:
  assumes acc: "preload_post cfg e clk0 pid st0 b = (st1, resp, Some job)"
    and run: "resolution_pass e cfg clk st job = (st', job')"
  shows "(\<forall>c n rs. resolution_loop e cfg clk (language job) (texts job) (audioCache st) 0 [] = (c, n, Inr rs) \<longrightarrow>
            status job' = Completed \<and> results job' = rs
          \<and> length (results job') = length (texts job)
          \<and> map res_text (results job') = texts job
          \<and> body_texts b = JArr (map JStr (map res_text (results job'))))
       \<and> (\<forall>c n err. resolution_loop e cfg clk (language job) (texts job) (audioCache st) 0 [] = (c, n, Inl err) \<longrightarrow>
            status job' = Failed \<and> results job' = [])
       \<and> (status job' = Completed \<or> status job' = Failed)
       \<and> (jsmap_has (preloadQueue st) pid \<longrightarrow>
            snd (preload_get clk' st' pid) = status_response pid job' (clk' 1 - clk' 0))"
proof -
  note a = preload_post_accepted [OF acc]
  have ok: "status job' = Completed \<and> results job' = rs
          \<and> length (results job') = length (texts job)
          \<and> map res_text (results job') = texts job
          \<and> body_texts b = JArr (map JStr (map res_text (results job')))"
    if l: "resolution_loop e cfg clk (language job) (texts job) (audioCache st) 0 [] = (c, n, Inr rs)"
    for c n rs
  proof -
    have t: "map res_text rs = texts job"
      using resolution_loop_texts [OF l] by simp
    have j: "job' = job\<lparr> status := Completed, results := rs, completedTime := Some (clk n),
                   processingDuration := Some (clk n - startTime job) \<rparr>"
      using run resolution_pass_success [OF l] by simp
    have len: "length rs = length (texts job)"
      using t by (metis length_map)
    show ?thesis
      using t len a(5) by (simp add: j)
  qed
  have bad: "status job' = Failed \<and> results job' = []"
    if l: "resolution_loop e cfg clk (language job) (texts job) (audioCache st) 0 [] = (c, n, Inl err)"
    for c n err
  proof -
    have "job' = job\<lparr> status := Failed, error := Some err \<rparr>"
      using run resolution_pass_failure [OF l] by simp
    then show ?thesis by (simp add: a(3))
  qed
  have fin: "status job' = Completed \<or> status job' = Failed"
    using run by (auto simp: resolution_pass_def Let_def split: prod.splits sum.splits)
  have rep: "snd (preload_get clk' st' pid) = status_response pid job' (clk' 1 - clk' 0)"
    if "jsmap_has (preloadQueue st) pid"
  proof -
    have "jsmap_get (preloadQueue st') pid = Some job'"
      using resolution_pass_registered [OF run] that a(1) by simp
    then show ?thesis by (simp add: preload_get_present)
  qed
  from ok bad fin rep show ?thesis by blast
qed

lemmas sample_defs =
  env_sample_def env_failing_def job_two_def state_two_def request_two_def empty_state_def
  const_clock_def nihao_def xuexi_def AUDIO_CONFIG_def

lemma isValid_nihao: "isValidChineseText (JStr nihao)"
  by (simp add: isValidChineseText_def chineseRegex_test_def chineseRegex_class_def nihao_def)

lemma isValid_xuexi: "isValidChineseText (JStr xuexi)"
  by (simp add: isValidChineseText_def chineseRegex_test_def chineseRegex_class_def xuexi_def)

lemma preload_post_request_two:
  "preload_post AUDIO_CONFIG (env_sample\<lparr>md5_hex := h\<rparr>) (const_clock 0) (js ''job-2'') empty_state request_two
     = (state_two,
        (200, PreloadAccepted (js ''job-2'') 2 (js ''zh-CN'') 0 (js ''/preload/'' @ js ''job-2'')),
        Some job_two)"
proof -
  have l: "default_language AUDIO_CONFIG (body_language request_two) = JStr (js ''zh-CN'')"
    by (simp add: default_language_def request_two_def AUDIO_CONFIG_def)
  have s: "language_supported AUDIO_CONFIG (JStr (js ''zh-CN''))"
    by (simp add: language_supported_def AUDIO_CONFIG_def)
  have t: "body_texts request_two = JArr [JStr nihao, JStr xuexi]"
    by (simp add: request_two_def)
  have m: "recordMetrics [] (js ''/preload'') 0 = [(js ''/preload'', [0])]"
    by (simp add: recordMetrics_def jsmap_has_def)
  show ?thesis
    unfolding preload_post_def Let_def l t
    by (simp add: s isValid_nihao isValid_xuexi m empty_state_def state_two_def job_two_def
          env_sample_def const_clock_def)
qed

lemma loop_sample_succeeds:
  "\<exists>rs. snd (snd (resolution_loop env_sample AUDIO_CONFIG (const_clock 7) (language job_two)
                      (texts job_two) (audioCache state_two) 0 [])) = Inr rs"
  by (simp add: sample_defs generateCacheKey_def generateAudioUrl_def jsmap_has_def cache_put_def
        cleanCache_def jsmap_size_def js_def)

lemma loop_failing_fails:
  "snd (snd (resolution_loop (env_failing msg) AUDIO_CONFIG (const_clock 5) (language job_two)
                      (texts job_two) (audioCache state_two) 0 [])) = Inl msg"
  by (simp add: sample_defs generateCacheKey_def)

theorem resolution_pass_results_witness:
  "preload_post AUDIO_CONFIG env_sample (const_clock 0) (js ''job-2'') empty_state request_two
     = (state_two,
        (200, PreloadAccepted (js ''job-2'') 2 (js ''zh-CN'') 0 (js ''/preload/'' @ js ''job-2'')),
        Some job_two)
   \<and> status (snd (resolution_pass env_sample AUDIO_CONFIG (const_clock 7) state_two job_two)) = Completed
   \<and> map res_text (results (snd (resolution_pass env_sample AUDIO_CONFIG (const_clock 7) state_two job_two)))
        = [nihao, xuexi]
   \<and> status (failed_job (js ''boom'')) = Failed
   \<and> results (failed_job (js ''boom'')) = []
   \<and> jsmap_has (preloadQueue state_two) (js ''job-2'')
   \<and> snd (preload_get (const_clock 9) (failed_state (js ''boom'')) (js ''job-2''))
        = status_response (js ''job-2'') (failed_job (js ''boom'')) 0"
proof -
  have acc: "preload_post AUDIO_CONFIG env_sample (const_clock 0) (js ''job-2'') empty_state request_two
     = (state_two,
        (200, PreloadAccepted (js ''job-2'') 2 (js ''zh-CN'') 0 (js ''/preload/'' @ js ''job-2'')),
        Some job_two)"
    using preload_post_request_two [of "md5_hex env_sample"] by simp
  have accf: "preload_post AUDIO_CONFIG (env_failing (js ''boom'')) (const_clock 0) (js ''job-2'') empty_state request_two
     = (state_two,
        (200, PreloadAccepted (js ''job-2'') 2 (js ''zh-CN'') 0 (js ''/preload/'' @ js ''job-2'')),
        Some job_two)"
    unfolding env_failing_def by (rule preload_post_request_two)
  let ?ok = "resolution_pass env_sample AUDIO_CONFIG (const_clock 7) state_two job_two"
  have run: "?ok = (fst ?ok, snd ?ok)" by simp
  have runf: "resolution_pass (env_failing (js ''boom'')) AUDIO_CONFIG (const_clock 5) state_two job_two
                = (failed_state (js ''boom''), failed_job (js ''boom''))"
    by (simp add: failed_state_def failed_job_def)
  obtain c n rs where l: "resolution_loop env_sample AUDIO_CONFIG (const_clock 7) (language job_two)
                      (texts job_two) (audioCache state_two) 0 [] = (c, n, Inr rs)"
    using loop_sample_succeeds by (metis prod.collapse)
  obtain cf nf where lf: "resolution_loop (env_failing (js ''boom'')) AUDIO_CONFIG (const_clock 5)
                      (language job_two) (texts job_two) (audioCache state_two) 0 [] = (cf, nf, Inl (js ''boom''))"
    using loop_failing_fails [of "js ''boom''"] by (metis prod.collapse)
  have reg: "jsmap_has (preloadQueue state_two) (js ''job-2'')"
    by (simp add: state_two_def jsmap_has_def)
  from resolution_pass_results [OF acc run, THEN conjunct1, rule_format, OF l]
  have r1: "status (snd ?ok) = Completed" and r2: "map res_text (results (snd ?ok)) = texts job_two"
    by blast+
  from resolution_pass_results [OF accf runf, THEN conjunct2, THEN conjunct1, rule_format, OF lf]
  have r3: "status (failed_job (js ''boom'')) = Failed" and r4: "results (failed_job (js ''boom'')) = []"
    by simp_all
  from resolution_pass_results [OF accf runf, THEN conjunct2, THEN conjunct2, THEN conjunct2, rule_format,
         OF reg, of "const_clock 9"]
  have r5: "snd (preload_get (const_clock 9) (failed_state (js ''boom'')) (js ''job-2''))
        = status_response (js ''job-2'') (failed_job (js ''boom'')) 0"
    by (simp add: const_clock_def)
  have txts: "texts job_two = [nihao, xuexi]"
    by (simp add: job_two_def)
  from acc r1 r2 [unfolded txts] r3 r4 reg r5 show ?thesis by blast
qed

lemma failed_job_eval:
  "failed_job msg = job_two\<lparr> status := Failed, error := Some msg \<rparr>"
  "failed_state msg = state_two\<lparr>preloadQueue := [(js ''job-2'', job_two\<lparr> status := Failed, error := Some msg \<rparr>)]\<rparr>"
proof -
  obtain c n where l: "resolution_loop (env_failing msg) AUDIO_CONFIG (const_clock 5)
                      (language job_two) (texts job_two) (audioCache state_two) 0 [] = (c, n, Inl msg)"
    using loop_failing_fails [of msg] by (metis prod.collapse)
  have c: "c = []"
    using l by (simp add: sample_defs generateCacheKey_def)
  have p: "publish (preloadQueue state_two) (job_two\<lparr> status := Failed, error := Some msg \<rparr>)
             = [(js ''job-2'', job_two\<lparr> status := Failed, error := Some msg \<rparr>)]"
    by (simp add: publish_def state_two_def job_two_def jsmap_has_def)
  show "failed_job msg = job_two\<lparr> status := Failed, error := Some msg \<rparr>"
    by (simp add: failed_job_def resolution_pass_failure [OF l])
  show "failed_state msg = state_two\<lparr>preloadQueue := [(js ''job-2'', job_two\<lparr> status := Failed, error := Some msg \<rparr>)]\<rparr>"
    by (simp add: failed_state_def resolution_pass_failure [OF l] p c) (simp add: state_two_def)
qed

text \<open>
  C6, as stated, fails in its second half. Two passes on the same job fail with
  different messages; each message is stored on its job, and the status query answers
  both jobs with the same response: the response has no field that carries the message.
\<close>

theorem failure_message_in_status_counterexample:
  "status (failed_job (js ''boom'')) = Failed
   \<and> error (failed_job (js ''boom'')) = Some (js ''boom'')
   \<and> error (failed_job (js ''bang'')) = Some (js ''bang'')
   \<and> js ''boom'' \<noteq> js ''bang''
   \<and> jsmap_get (preloadQueue (failed_state (js ''boom''))) (js ''job-2'') = Some (failed_job (js ''boom''))
   \<and> jsmap_get (preloadQueue (failed_state (js ''bang''))) (js ''job-2'') = Some (failed_job (js ''bang''))
   \<and> snd (preload_get (const_clock 9) (failed_state (js ''boom'')) (js ''job-2''))
        = snd (preload_get (const_clock 9) (failed_state (js ''bang'')) (js ''job-2''))"
  by (simp add: failed_job_eval preload_get_def status_response_def Let_def js_def)

text \<open>
  C6, amended. When the pass on an accepted job fails, the job becomes Failed and the
  message of the exception is stored in its \<open>error\<close> field. While the job is registered,
  the status query answers 200 with status Failed and no results; the response is built
  from the other fields of the job and is the same whatever \<open>error\<close> holds.
\<close>

theorem failed_pass_records_error:
  assumes acc: "preload_post cfg e clk0 pid st0 b = (st1, resp, Some job)"
    and fail: "resolution_loop e cfg clk (language job) (texts job) (audioCache st) 0 [] = (c, n, Inl err)"
    and run: "resolution_pass e cfg clk st job = (st', job')"
    and reg: "jsmap_has (preloadQueue st) pid"
  shows "status job' = Failed \<and> error job' = Some err
       \<and> jsmap_get (preloadQueue st') pid = Some job'
       \<and> snd (preload_get clk' st' pid) = status_response pid job' (clk' 1 - clk' 0)
       \<and> (\<exists>sb. status_response pid job' (clk' 1 - clk' 0) = (200, StatusBody sb)
                \<and> sb_status sb = Failed \<and> sb_results sb = [])
       \<and> (\<forall>x rt. status_response pid (job'\<lparr>error := x\<rparr>) rt = status_response pid job' rt)"
proof -
  note a = preload_post_accepted [OF acc]
  have j: "job' = job\<lparr> status := Failed, error := Some err \<rparr>"
    using run resolution_pass_failure [OF fail] by simp
  have g: "jsmap_get (preloadQueue st') pid = Some job'"
    using resolution_pass_registered [OF run] reg a(1) by simp
  have r: "snd (preload_get clk' st' pid) = status_response pid job' (clk' 1 - clk' 0)"
    by (simp add: preload_get_present [OF g])
  have sb: "\<exists>sb. status_response pid job' (clk' 1 - clk' 0) = (200, StatusBody sb)
                \<and> sb_status sb = Failed \<and> sb_results sb = []"
    by (simp add: status_response_def j a(3))
  have ind: "status_response pid (job'\<lparr>error := x\<rparr>) rt = status_response pid job' rt" for x rt
    by (simp add: status_response_def)
  from j g r sb ind show ?thesis by simp
qed

theorem failed_pass_records_error_witness:
  "preload_post AUDIO_CONFIG (env_failing (js ''boom'')) (const_clock 0) (js ''job-2'') empty_state request_two
     = (state_two,
        (200, PreloadAccepted (js ''job-2'') 2 (js ''zh-CN'') 0 (js ''/preload/'' @ js ''job-2'')),
        Some job_two)
   \<and> snd (snd (resolution_loop (env_failing (js ''boom'')) AUDIO_CONFIG (const_clock 5)
                   (language job_two) (texts job_two) (audioCache state_two) 0 [])) = Inl (js ''boom'')
   \<and> jsmap_has (preloadQueue state_two) (js ''job-2'')
   \<and> status (failed_job (js ''boom'')) = Failed
   \<and> error (failed_job (js ''boom'')) = Some (js ''boom'')
   \<and> jsmap_get (preloadQueue (failed_state (js ''boom''))) (js ''job-2'') = Some (failed_job (js ''boom''))"
proof -
  have acc: "preload_post AUDIO_CONFIG (env_failing (js ''boom'')) (const_clock 0) (js ''job-2'') empty_state request_two
     = (state_two,
        (200, PreloadAccepted (js ''job-2'') 2 (js ''zh-CN'') 0 (js ''/preload/'' @ js ''job-2'')),
        Some job_two)"
    unfolding env_failing_def by (rule preload_post_request_two)
  have run: "resolution_pass (env_failing (js ''boom'')) AUDIO_CONFIG (const_clock 5) state_two job_two
                = (failed_state (js ''boom''), failed_job (js ''boom''))"
    by (simp add: failed_state_def failed_job_def)
  have lo: "snd (snd (resolution_loop (env_failing (js ''boom'')) AUDIO_CONFIG (const_clock 5)
                   (language job_two) (texts job_two) (audioCache state_two) 0 [])) = Inl (js ''boom'')"
    by (rule loop_failing_fails)
  then obtain c n where fail: "resolution_loop (env_failing (js ''boom'')) AUDIO_CONFIG (const_clock 5)
                      (language job_two) (texts job_two) (audioCache state_two) 0 [] = (c, n, Inl (js ''boom''))"
    by (metis prod.collapse)
  have reg: "jsmap_has (preloadQueue state_two) (js ''job-2'')"
    by (simp add: state_two_def jsmap_has_def)
  from failed_pass_records_error [OF acc fail run reg]
  have "status (failed_job (js ''boom'')) = Failed" "error (failed_job (js ''boom'')) = Some (js ''boom'')"
    "jsmap_get (preloadQueue (failed_state (js ''boom''))) (js ''job-2'') = Some (failed_job (js ''boom''))"
    by blast+
  with acc lo reg show ?thesis by blast
qed

subsection \<open>Validation\<close>

lemma isValidChineseText_spec: "isValidChineseText v = spec_text_valid v"
proof (cases v)
  case (JStr s)
  have "list_ex chineseRegex_class s \<Longrightarrow> s \<noteq> []"
    by (cases s) simp_all
  then show ?thesis
    by (auto simp: JStr isValidChineseText_def spec_text_valid_def chineseRegex_test_def
          chineseRegex_class_def list_ex_iff)
qed (simp_all add: isValidChineseText_def spec_text_valid_def)

lemma find_invalid_iff:
  "(find (\<lambda>t. \<not> isValidChineseText t) xs = None) \<longleftrightarrow> (\<forall>t \<in> set xs. spec_text_valid t)"
  by (auto simp: find_None_iff isValidChineseText_spec)

lemma audio_post_400_iff:
  "fst (snd (audio_post e cfg clk st b)) = 400
     \<longleftrightarrow> \<not> spec_text_valid (body_text b)
          \<or> \<not> language_supported cfg (default_language cfg (body_language b))"
  by (simp add: audio_post_def Let_def isValidChineseText_spec invalid_text_response_def
        unsupported_language_response_def audio_error_response_def
        split: sum.splits option.splits)

lemma audio_post_400_state:
  "fst (snd (audio_post e cfg clk st b)) = 400 \<Longrightarrow> fst (audio_post e cfg clk st b) = st"
  by (simp add: audio_post_def Let_def invalid_text_response_def
        unsupported_language_response_def audio_error_response_def
        split: sum.splits option.splits if_splits)

subsection \<open>The two variants of POST /audio\<close>






subsection \<open>The capacity is kept by every operation\<close>

lemma audio_post_inv:
  assumes "5 \<le> MAX_CACHE_SIZE cfg" and "cache_inv cfg (audioCache st)"
  shows "cache_inv cfg (audioCache (fst (audio_post e cfg clk st b)))"
  using assms
  by (auto simp: audio_post_def Let_def cache_put_inv split: sum.splits option.splits)

lemma resolution_loop_inv:
  assumes "5 \<le> MAX_CACHE_SIZE cfg" and "cache_inv cfg c"
  shows "cache_inv cfg (fst (resolution_loop e cfg clk lang ts c n rs))"
  using assms(2)
proof (induction ts arbitrary: c n rs)
  case Nil
  then show ?case by simp
next
  case (Cons t ts)
  show ?case
    using Cons.prems
    by (auto simp: Cons.IH cache_put_inv [OF assms(1)] split: sum.splits)
qed

lemma resolution_pass_inv:
  assumes "5 \<le> MAX_CACHE_SIZE cfg" and "cache_inv cfg (audioCache st)"
  shows "cache_inv cfg (audioCache (fst (resolution_pass e cfg clk st pd)))"
proof -
  obtain c n r where l: "resolution_loop e cfg clk (language pd) (texts pd) (audioCache st) 0 [] = (c, n, r)"
    by (metis prod.collapse)
  have "cache_inv cfg c"
    using resolution_loop_inv [OF assms, of e clk "language pd" "texts pd" 0 "[]"] l by simp
  then show ?thesis
    using l by (cases r) (simp_all add: resolution_pass_def Let_def)
qed

lemma cache_inv_empty: "cache_inv cfg []"
  by (simp add: cache_inv_def jsmap_wf_def jsmap_size_def)

lemma other_handlers_keep_cache:
  "audioCache (fst (preload_post cfg e clk pid st b)) = audioCache st"
  "audioCache (fst (preload_get clk st i)) = audioCache st"
  "audioCache (sweep clk st) = audioCache st"
  by (simp_all add: preload_post_def preload_get_def sweep_def Let_def
        split: option.splits)

subsection \<open>What the cache stores\<close>

lemma jsmap_set_list_all: "list_all P m \<Longrightarrow> P (k, v) \<Longrightarrow> list_all P (jsmap_set m k v)"
  by (induction m) auto

lemma cache_put_tts:
  assumes "cache_tts e cfg c" and "tts_record e cfg r"
  shows "cache_tts e cfg (cache_put cfg' c k r)"
proof -
  have "list_all (\<lambda>p. tts_record e cfg (snd p)) (cleanCache cfg' c)"
    using assms(1) by (simp add: cache_tts_def cleanCache_def delete_keys_filter list_all_iff)
  then show ?thesis
    unfolding cache_tts_def cache_put_def using assms(2) by (intro jsmap_set_list_all) simp_all
qed

lemma audio_post_tts:
  assumes "cache_tts e cfg (audioCache st)"
  shows "cache_tts e cfg (audioCache (fst (audio_post e cfg clk st b)))"
    and "cache_tts e cfg (audioCache (fst (audio_post_direct e cfg clk st b)))"
  using assms
  by (auto simp: audio_post_def audio_post_direct_def Let_def tts_record_def
           intro!: cache_put_tts split: sum.splits option.splits)

lemma resolution_loop_tts:
  "cache_tts e cfg c \<Longrightarrow> cache_tts e cfg (fst (resolution_loop e cfg clk lang ts c n rs))"
proof (induction ts arbitrary: c n rs)
  case Nil
  then show ?case by simp
next
  case (Cons t ts)
  show ?case
    using Cons.prems
    by (auto simp: tts_record_def intro!: Cons.IH cache_put_tts split: sum.splits)
qed

lemma cache_tts_get:
  "cache_tts e cfg c \<Longrightarrow> jsmap_get c k = Some r \<Longrightarrow> tts_record e cfg r"
  by (induction c) (auto simp: cache_tts_def split: if_splits)

text \<open>
  So the reference the other variant returns on a hit is a URL of the external service:
  the base URL of the configuration, a question mark and the encoded parameters.
\<close>

lemma direct_hit_is_tts_url:
  assumes "cache_tts e cfg (audioCache st)" and "jsmap_get (audioCache st) k = Some r"
  shows "\<exists>params. cr_audioUrl r = TTS_BASE_URL cfg @ js ''?'' @ params"
proof -
  have "generateAudioUrl e cfg (cr_text r) (cr_language r) = Inr (cr_audioUrl r)"
    using cache_tts_get [OF assms] by (simp add: tts_record_def)
  then show ?thesis
    by (auto simp: generateAudioUrl_def split: sum.splits intro: sym)
qed

subsection \<open>The registry stays a Map\<close>




subsection \<open>The audio proxy\<close>

lemma play_get_absent:
  "jsmap_get (audioCache st) k = None \<Longrightarrow>
     play_get up st k
       = (Some st,
          play_start\<lparr>replies := [JsonReply 404 (ErrorBody (js ''Audio not found'')
                          (Details (js ''The requested audio has not been cached or has expired'')))],
                     headersSent := True\<rparr>)"
  by (simp add: play_get_def res_json_def play_start_def)

lemma play_get_streams:
  "jsmap_get (audioCache st) k = Some r \<Longrightarrow> up (cr_audioUrl r) = [UpResponse bytes] \<Longrightarrow>
     play_get up st k
       = (Some st,
          play_start\<lparr>replies := [StreamReply [(js ''Content-Type'', js ''audio/mpeg''),
                                                (js ''Cache-Control'', js ''public, max-age=3600''),
                                                (js ''Access-Control-Allow-Origin'', js ''*'')] bytes],
                     headersSent := True,
                     fetched := [(cr_audioUrl r, 10000)]\<rparr>)"
  by (simp add: play_get_def Let_def on_response_def play_start_def)

lemma play_get_upstream_error:
  "jsmap_get (audioCache st) k = Some r \<Longrightarrow> up (cr_audioUrl r) = [UpError msg] \<Longrightarrow>
     play_get up st k
       = (Some st,
          play_start\<lparr>replies := [JsonReply 500 (ErrorBody (js ''Failed to retrieve audio'') (Details msg))],
                     headersSent := True,
                     fetched := [(cr_audioUrl r, 10000)]\<rparr>)"
  by (simp add: play_get_def Let_def on_error_def res_json_def play_start_def)

text \<open>
  Whatever the upstream does, the handler sends at most one request, and the client gets
  at most one reply.
\<close>

lemma deliver_fetched: "fetched (deliver evs r) = fetched r"
  by (induction evs r rule: deliver.induct)
     (simp_all add: Let_def on_response_def on_error_def on_timeout_def res_json_def)

lemma play_get_one_request:
  "length (fetched (snd (play_get up st k))) \<le> 1"
  by (simp add: play_get_def Let_def deliver_fetched res_json_def play_start_def split: option.splits)

text \<open>The paths of the proxy that end well, on the cached record of \<open>A\<close>.\<close>

lemma play_get_sample_runs:
  "play_get upstream_ok state_cached_A (js ''B'')
     = (Some state_cached_A,
        play_start\<lparr>replies := [JsonReply 404 (ErrorBody (js ''Audio not found'')
                        (Details (js ''The requested audio has not been cached or has expired'')))],
                   headersSent := True\<rparr>)"
  "play_get upstream_ok state_cached_A (js ''A'')
     = (Some state_cached_A,
        play_start\<lparr>replies := [StreamReply [(js ''Content-Type'', js ''audio/mpeg''),
                                              (js ''Cache-Control'', js ''public, max-age=3600''),
                                              (js ''Access-Control-Allow-Origin'', js ''*'')] [0x49, 0x44]],
                   headersSent := True,
                   fetched := [(cr_audioUrl (sample_record (js ''A'')), 10000)]\<rparr>)"
  "play_get upstream_refused state_cached_A (js ''A'')
     = (Some state_cached_A,
        play_start\<lparr>replies := [JsonReply 500 (ErrorBody (js ''Failed to retrieve audio'')
                                                (Details (js ''connect ECONNREFUSED'')))],
                   headersSent := True,
                   fetched := [(cr_audioUrl (sample_record (js ''A'')), 10000)]\<rparr>)"
proof -
  have n: "jsmap_get (audioCache state_cached_A) (js ''B'') = None"
    by (simp add: state_cached_A_def js_def)
  have s: "jsmap_get (audioCache state_cached_A) (js ''A'') = Some (sample_record (js ''A''))"
    by (simp add: state_cached_A_def)
  show "play_get upstream_ok state_cached_A (js ''B'')
     = (Some state_cached_A,
        play_start\<lparr>replies := [JsonReply 404 (ErrorBody (js ''Audio not found'')
                        (Details (js ''The requested audio has not been cached or has expired'')))],
                   headersSent := True\<rparr>)"
    by (rule play_get_absent [OF n])
  show "play_get upstream_ok state_cached_A (js ''A'')
     = (Some state_cached_A,
        play_start\<lparr>replies := [StreamReply [(js ''Content-Type'', js ''audio/mpeg''),
                                              (js ''Cache-Control'', js ''public, max-age=3600''),
                                              (js ''Access-Control-Allow-Origin'', js ''*'')] [0x49, 0x44]],
                   headersSent := True,
                   fetched := [(cr_audioUrl (sample_record (js ''A'')), 10000)]\<rparr>)"
    by (rule play_get_streams [OF s]) (simp add: upstream_ok_def)
  show "play_get upstream_refused state_cached_A (js ''A'')
     = (Some state_cached_A,
        play_start\<lparr>replies := [JsonReply 500 (ErrorBody (js ''Failed to retrieve audio'')
                                                (Details (js ''connect ECONNREFUSED'')))],
                   headersSent := True,
                   fetched := [(cr_audioUrl (sample_record (js ''A'')), 10000)]\<rparr>)"
    by (rule play_get_upstream_error [OF s]) (simp add: upstream_refused_def)
qed

text \<open>
  C8. On the timeout path server.js breaks what the claim says. For a key the cache holds
  and an upstream that stays silent, the timeout callback destroys the request and
  answers 504; the destroyed request then emits \<open>'error'\<close>, the \<open>'error'\<close> listener calls
  \<open>res.status(500).json\<close> on the response that is already sent, and the exception that
  throws is caught by nobody: the process ends, and the cache with it.
\<close>

theorem play_get_timeout_ends_process:
  "play_get upstream_silent state_cached_A (js ''A'')
     = (None,
        \<lparr> replies = [JsonReply 504 (ErrorBody (js ''Audio request timed out'') NoExtra)],
          headersSent = True,
          fetched = [(cr_audioUrl (sample_record (js ''A'')), 10000)],
          destroyed = True,
          uncaught = Some ERR_HTTP_HEADERS_SENT \<rparr>)"
  by (simp add: play_get_def Let_def state_cached_A_def upstream_silent_def on_timeout_def
        on_error_def res_json_def play_start_def)

text \<open>The same holds of every timeout: after it, in whatever run, the process has ended.\<close>

lemma timeout_always_uncaught: "uncaught (deliver (UpTimeout # evs) r) \<noteq> None"
  by (simp add: Let_def on_timeout_def on_error_def res_json_def)

subsection \<open>Rejected requests\<close>

lemma language_supported_AUDIO_CONFIG:
  "language_supported AUDIO_CONFIG v \<longleftrightarrow> v = JStr (js ''zh-CN'') \<or> v = JStr (js ''zh-TW'')"
  by (auto simp: language_supported_def AUDIO_CONFIG_def)

lemma audio_post_200:
  "fst (snd (audio_post e cfg clk st b)) = 200
     \<Longrightarrow> spec_text_valid (body_text b)
         \<and> language_supported cfg (default_language cfg (body_language b))"
  by (simp add: audio_post_def Let_def isValidChineseText_spec invalid_text_response_def
        unsupported_language_response_def audio_error_response_def
        split: sum.splits option.splits if_splits)

lemma audio_post_status:
  "fst (snd (audio_post e cfg clk st b)) \<in> {200, 400, 500}"
  by (simp add: audio_post_def Let_def invalid_text_response_def
        unsupported_language_response_def audio_error_response_def
        split: sum.splits option.splits)

lemma spec_batch_valid_find:
  "spec_batch_valid cfg b \<longleftrightarrow>
     isArray (body_texts b) \<and> arr_val (body_texts b) \<noteq> []
     \<and> \<not> length (arr_val (body_texts b)) > 10
     \<and> find (\<lambda>t. \<not> isValidChineseText t) (arr_val (body_texts b)) = None
     \<and> language_supported cfg (default_language cfg (body_language b))"
proof -
  have "1 \<le> length xs \<longleftrightarrow> xs \<noteq> []" for xs :: "json list"
    by (cases xs) simp_all
  moreover have "list_all spec_text_valid xs \<longleftrightarrow> find (\<lambda>t. \<not> isValidChineseText t) xs = None" for xs
    by (simp add: find_invalid_iff list_all_iff)
  ultimately show ?thesis
    by (auto simp: spec_batch_valid_def)
qed

lemma preload_post_accepts_iff:
  "fst (fst (snd (preload_post cfg e clk pid st b))) = 200 \<longleftrightarrow> spec_batch_valid cfg b"
  by (auto simp: spec_batch_valid_find preload_post_def Let_def unsupported_language_response_def
        preload_error_response_def split: option.splits)

lemma preload_post_rejects:
  assumes "\<not> spec_batch_valid cfg b"
  shows "fst (preload_post cfg e clk pid st b) = st"
    and "snd (snd (preload_post cfg e clk pid st b)) = None"
    and "fst (fst (snd (preload_post cfg e clk pid st b))) = 400
         \<or> fst (fst (snd (preload_post cfg e clk pid st b))) = 500"
  using assms
  by (auto simp: spec_batch_valid_find preload_post_def Let_def unsupported_language_response_def
        preload_error_response_def split: option.splits)

lemma find_Some_mem: "find P xs = Some t \<Longrightarrow> t \<in> set xs"
  by (induction xs) (auto split: if_splits)

lemma preload_post_rejects_400:
  assumes "\<not> spec_batch_valid cfg b" and "\<not> list_ex toString_throws (arr_val (body_texts b))"
  shows "fst (fst (snd (preload_post cfg e clk pid st b))) = 400"
proof (cases "find (\<lambda>t. \<not> isValidChineseText t) (arr_val (body_texts b))")
  case None
  then show ?thesis
    using assms(1)
    by (auto simp: spec_batch_valid_find preload_post_def Let_def unsupported_language_response_def)
next
  case (Some t)
  then have "\<not> toString_throws t"
    using assms(2) find_Some_mem [OF Some] by (auto simp: list_ex_iff)
  then show ?thesis
    using Some by (auto simp: preload_post_def Let_def)
qed

text \<open>
  An invalid element whose conversion to a string throws is answered 500, not 400; the
  state is untouched and nothing is scheduled.
\<close>

lemma object_element_answered_500:
  "preload_post AUDIO_CONFIG env_sample (const_clock 0) (js ''job-3'') state_two request_object_element
     = (state_two, preload_error_response 0, None)"
  by (simp add: preload_post_def Let_def request_object_element_def isValidChineseText_def
        const_clock_def)

text \<open>
  C5, as stated, fails. A text of 40000 ideographs is not valid, and the \<open>/audio\<close>
  request that carries it is longer than the body parser's limit: it is answered 500 by
  the error middleware, not with a ValidationError.
\<close>

theorem oversized_invalid_text_counterexample:
  "\<not> spec_text_valid (body_text (parsed request_long))
   \<and> content_length request_long > JSON_BODY_LIMIT
   \<and> http_post_audio env_sample AUDIO_CONFIG (const_clock 0) empty_state request_long
        = (empty_state, error_middleware_response env_sample (const_clock 0))
   \<and> fst (snd (http_post_audio env_sample AUDIO_CONFIG (const_clock 0) empty_state request_long)) = 500"
  by (simp add: request_long_def wire_def long_text_def spec_text_valid_def JSON_BODY_LIMIT_def
        http_post_audio_def error_middleware_response_def)

text \<open>
  C5, amended. \<open>isValidChineseText\<close> accepts exactly the values the specification's
  predicate describes, and a request is accepted (answered 200) only when its body is
  within the body parser's limit and, for \<open>/audio\<close>, its text is valid and its language
  supported; for \<open>/preload\<close>, exactly when moreover \<open>texts\<close> is a list of 1 to 10 valid
  texts. Every other request is rejected with the whole state as it was, and for
  \<open>/preload\<close> with no job created and no pass scheduled. The rejection is a 400 when the
  body is within the limit (for \<open>/preload\<close>: and no element of \<open>texts\<close> is an object that
  cannot be turned into a string), and the 500 of the error middleware when the body is
  longer. The supported languages of the service are \<open>zh-CN\<close> and \<open>zh-TW\<close>.
\<close>

theorem invalid_requests_rejected_unchanged:
  "(isValidChineseText v \<longleftrightarrow> spec_text_valid v)
   \<and> (fst (snd (http_post_audio e cfg clk st r)) = 400
        \<longleftrightarrow> content_length r \<le> JSON_BODY_LIMIT
             \<and> (\<not> spec_text_valid (body_text (parsed r))
                  \<or> \<not> language_supported cfg (default_language cfg (body_language (parsed r)))))
   \<and> (fst (snd (http_post_audio e cfg clk st r)) = 200
        \<longrightarrow> content_length r \<le> JSON_BODY_LIMIT
           \<and> spec_text_valid (body_text (parsed r))
           \<and> language_supported cfg (default_language cfg (body_language (parsed r))))
   \<and> (fst (snd (http_post_audio e cfg clk st r)) \<noteq> 200
        \<longrightarrow> fst (http_post_audio e cfg clk st r) = st)
   \<and> (content_length r > JSON_BODY_LIMIT
        \<longrightarrow> http_post_audio e cfg clk st r = (st, error_middleware_response e clk)
           \<and> http_post_preload cfg e clk pid st r = (st, error_middleware_response e clk, None))
   \<and> (fst (fst (snd (http_post_preload cfg e clk pid st r))) = 200
        \<longleftrightarrow> content_length r \<le> JSON_BODY_LIMIT \<and> spec_batch_valid cfg (parsed r))
   \<and> (fst (fst (snd (http_post_preload cfg e clk pid st r))) \<noteq> 200
        \<longrightarrow> fst (http_post_preload cfg e clk pid st r) = st
           \<and> snd (snd (http_post_preload cfg e clk pid st r)) = None)
   \<and> (content_length r \<le> JSON_BODY_LIMIT \<and> \<not> spec_batch_valid cfg (parsed r)
        \<and> \<not> list_ex toString_throws (arr_val (body_texts (parsed r)))
        \<longrightarrow> fst (fst (snd (http_post_preload cfg e clk pid st r))) = 400)
   \<and> (language_supported AUDIO_CONFIG l \<longleftrightarrow> l = JStr (js ''zh-CN'') \<or> l = JStr (js ''zh-TW''))"
proof -
  let ?A = "http_post_audio e cfg clk st r"
  let ?P = "http_post_preload cfg e clk pid st r"
  have mw: "fst (error_middleware_response e clk) = 500"
    by (simp add: error_middleware_response_def)
  have c1: "isValidChineseText v \<longleftrightarrow> spec_text_valid v"
    by (rule isValidChineseText_spec)
  have c2: "fst (snd ?A) = 400
        \<longleftrightarrow> content_length r \<le> JSON_BODY_LIMIT
             \<and> (\<not> spec_text_valid (body_text (parsed r))
                  \<or> \<not> language_supported cfg (default_language cfg (body_language (parsed r))))"
    using audio_post_400_iff [of e cfg clk st "parsed r"]
    by (auto simp: http_post_audio_def mw)
  have c3: "content_length r \<le> JSON_BODY_LIMIT
           \<and> spec_text_valid (body_text (parsed r))
           \<and> language_supported cfg (default_language cfg (body_language (parsed r)))"
    if "fst (snd ?A) = 200"
    using that audio_post_200 [of e cfg clk st "parsed r"]
    by (auto simp: http_post_audio_def mw split: if_splits)
  have c4: "fst ?A = st" if "fst (snd ?A) \<noteq> 200"
  proof (cases "content_length r > JSON_BODY_LIMIT")
    case True
    then show ?thesis by (simp add: http_post_audio_def)
  next
    case False
    then have eq: "?A = audio_post e cfg clk st (parsed r)"
      by (simp add: http_post_audio_def)
    have "fst (snd (audio_post e cfg clk st (parsed r))) = 400
          \<or> fst (snd (audio_post e cfg clk st (parsed r))) = 500"
      using that audio_post_status [of e cfg clk st "parsed r"] by (simp add: eq)
    then show ?thesis
    proof
      assume "fst (snd (audio_post e cfg clk st (parsed r))) = 400"
      then show ?thesis by (simp add: eq audio_post_400_state)
    next
      assume "fst (snd (audio_post e cfg clk st (parsed r))) = 500"
      then show ?thesis
        unfolding eq
        by (auto simp: audio_post_def Let_def invalid_text_response_def
              unsupported_language_response_def audio_error_response_def
              split: sum.splits option.splits if_splits)
    qed
  qed
  have c5: "?A = (st, error_middleware_response e clk) \<and> ?P = (st, error_middleware_response e clk, None)"
    if "content_length r > JSON_BODY_LIMIT"
    using that by (simp add: http_post_audio_def http_post_preload_def)
  have c6: "fst (fst (snd ?P)) = 200
        \<longleftrightarrow> content_length r \<le> JSON_BODY_LIMIT \<and> spec_batch_valid cfg (parsed r)"
    using preload_post_accepts_iff [of cfg e clk pid st "parsed r"]
    by (auto simp: http_post_preload_def mw)
  have c7: "fst ?P = st \<and> snd (snd ?P) = None" if ne: "fst (fst (snd ?P)) \<noteq> 200"
  proof (cases "content_length r > JSON_BODY_LIMIT")
    case True
    then show ?thesis by (simp add: http_post_preload_def)
  next
    case False
    then have eq: "?P = preload_post cfg e clk pid st (parsed r)"
      by (simp add: http_post_preload_def)
    have "\<not> spec_batch_valid cfg (parsed r)"
      using ne preload_post_accepts_iff [of cfg e clk pid st "parsed r"] by (simp add: eq)
    then show ?thesis
      by (simp add: eq preload_post_rejects)
  qed
  have c8: "fst (fst (snd ?P)) = 400"
    if "content_length r \<le> JSON_BODY_LIMIT" "\<not> spec_batch_valid cfg (parsed r)"
       "\<not> list_ex toString_throws (arr_val (body_texts (parsed r)))"
    using that by (simp add: http_post_preload_def preload_post_rejects_400)
  have c9: "language_supported AUDIO_CONFIG l \<longleftrightarrow> l = JStr (js ''zh-CN'') \<or> l = JStr (js ''zh-TW'')"
    by (rule language_supported_AUDIO_CONFIG)
  from c1 c2 c3 c4 c5 c6 c7 c8 c9 show ?thesis by blast
qed

theorem invalid_requests_rejected_unchanged_witness:
  "isValidChineseText (JStr nihao)
   \<and> \<not> isValidChineseText (JStr (js ''hello''))
   \<and> http_post_audio env_sample AUDIO_CONFIG (const_clock 0) state_two (wire 40 request_hello)
        = (state_two, invalid_text_response)
   \<and> http_post_audio env_sample AUDIO_CONFIG (const_clock 0) state_two request_long
        = (state_two, error_middleware_response env_sample (const_clock 0))
   \<and> fst (fst (snd (http_post_preload AUDIO_CONFIG env_sample (const_clock 0) (js ''job-3'') state_two
                       (wire 60 request_bad_batch)))) = 400
   \<and> fst (http_post_preload AUDIO_CONFIG env_sample (const_clock 0) (js ''job-3'') state_two
             (wire 60 request_bad_batch)) = state_two
   \<and> snd (snd (http_post_preload AUDIO_CONFIG env_sample (const_clock 0) (js ''job-3'') state_two
                  (wire 60 request_bad_batch))) = None
   \<and> fst (fst (snd (http_post_preload AUDIO_CONFIG env_sample (const_clock 0) (js ''job-2'') empty_state
                       (wire 60 request_two)))) = 200"
proof -
  note th = invalid_requests_rejected_unchanged
  have v1: "spec_text_valid (JStr nihao)"
    by (simp add: spec_text_valid_def nihao_def)
  have v1': "spec_text_valid (JStr xuexi)"
    by (simp add: spec_text_valid_def xuexi_def)
  have v2: "\<not> spec_text_valid (JStr (js ''hello''))"
    by (simp add: spec_text_valid_def js_def)
  have v3: "\<not> spec_text_valid (JNum 7)"
    by (simp add: spec_text_valid_def)
  have r1: "isValidChineseText (JStr nihao)"
    using th [of "JStr nihao", THEN conjunct1] v1 by simp
  have r2: "\<not> isValidChineseText (JStr (js ''hello''))"
    using th [of "JStr (js ''hello'')", THEN conjunct1] v2 by simp
  have small: "content_length (wire 40 request_hello) \<le> JSON_BODY_LIMIT"
    "content_length (wire 60 request_bad_batch) \<le> JSON_BODY_LIMIT"
    "content_length (wire 60 request_two) \<le> JSON_BODY_LIMIT"
    "content_length request_long > JSON_BODY_LIMIT"
    by (simp_all add: wire_def JSON_BODY_LIMIT_def request_long_def)
  have bh: "body_text (parsed (wire 40 request_hello)) = JStr (js ''hello'')"
    by (simp add: wire_def request_hello_def)
  have s400: "fst (snd (http_post_audio env_sample AUDIO_CONFIG (const_clock 0) state_two (wire 40 request_hello))) = 400"
    using th [of _ env_sample AUDIO_CONFIG "const_clock 0" state_two "wire 40 request_hello",
              THEN conjunct2, THEN conjunct1] v2 small(1)
    by (simp add: bh)
  then have same: "fst (http_post_audio env_sample AUDIO_CONFIG (const_clock 0) state_two (wire 40 request_hello)) = state_two"
    using th [of _ env_sample AUDIO_CONFIG "const_clock 0" state_two "wire 40 request_hello",
              THEN conjunct2, THEN conjunct2, THEN conjunct2, THEN conjunct1]
    by simp
  have resp: "snd (http_post_audio env_sample AUDIO_CONFIG (const_clock 0) state_two (wire 40 request_hello))
                = invalid_text_response"
    using r2 small(1) by (simp add: http_post_audio_def audio_post_def Let_def bh)
  have r3: "http_post_audio env_sample AUDIO_CONFIG (const_clock 0) state_two (wire 40 request_hello)
        = (state_two, invalid_text_response)"
    using same resp by (simp add: prod_eq_iff)
  have r4: "http_post_audio env_sample AUDIO_CONFIG (const_clock 0) state_two request_long
        = (state_two, error_middleware_response env_sample (const_clock 0))"
    using th [of _ env_sample AUDIO_CONFIG "const_clock 0" state_two request_long,
              THEN conjunct2, THEN conjunct2, THEN conjunct2, THEN conjunct2, THEN conjunct1]
          small(4)
    by simp
  have bb: "arr_val (body_texts (parsed (wire 60 request_bad_batch))) = [JStr nihao, JNum 7]"
    by (simp add: wire_def request_bad_batch_def)
  have nb: "\<not> spec_batch_valid AUDIO_CONFIG (parsed (wire 60 request_bad_batch))"
    using v3 by (simp add: spec_batch_valid_def bb)
  have nt: "\<not> list_ex toString_throws (arr_val (body_texts (parsed (wire 60 request_bad_batch))))"
    by (simp add: bb)
  note pb = th [of _ env_sample AUDIO_CONFIG "const_clock 0" state_two "wire 60 request_bad_batch" "js ''job-3''"]
  have p400: "fst (fst (snd (http_post_preload AUDIO_CONFIG env_sample (const_clock 0) (js ''job-3'') state_two
                       (wire 60 request_bad_batch)))) = 400"
    using pb small(2) nb nt by blast
  then have r5: "fst (http_post_preload AUDIO_CONFIG env_sample (const_clock 0) (js ''job-3'') state_two
             (wire 60 request_bad_batch)) = state_two"
    and r6: "snd (snd (http_post_preload AUDIO_CONFIG env_sample (const_clock 0) (js ''job-3'') state_two
                  (wire 60 request_bad_batch))) = None"
    using pb by simp_all
  have bt: "spec_batch_valid AUDIO_CONFIG (parsed (wire 60 request_two))"
    using v1 v1'
    by (simp add: spec_batch_valid_def wire_def request_two_def default_language_def
          language_supported_def AUDIO_CONFIG_def)
  have r7: "fst (fst (snd (http_post_preload AUDIO_CONFIG env_sample (const_clock 0) (js ''job-2'') empty_state
                       (wire 60 request_two)))) = 200"
    using th [of _ env_sample AUDIO_CONFIG "const_clock 0" empty_state "wire 60 request_two" "js ''job-2''"]
          small(3) bt
    by blast
  from r1 r2 r3 r4 p400 r5 r6 r7 show ?thesis by blast
qed

subsection \<open>A key the cache already holds\<close>










subsection \<open>The registry when the sweep runs\<close>

lemma terminal_not_processing: "terminal d \<longleftrightarrow> status d \<noteq> Processing"
  by (cases "status d") (simp_all add: terminal_def)













end
